theory Spec2Isabelle
  imports Main "HOL-Library.AList"
begin

section \<open>Python values: exceptions and strings\<close>

text \<open>
  The deployment script \<^verbatim>\<open>turn_3_model_a.py\<close> is modelled as a state and exception
  passing program.  An exception is a value.  \<open>Error c m\<close> is an exception of a class
  \<open>c\<close> below \<^verbatim>\<open>Exception\<close> whose text \<^verbatim>\<open>str(e)\<close> is \<open>m\<close>.  \<open>SystemExit\<close> is the
  exception of a \<^verbatim>\<open>sys.exit(1)\<close> called inside a library (\<^verbatim>\<open>venv.create\<close> calls it where
  \<^verbatim>\<open>ensurepip\<close> is missing); it is not below \<^verbatim>\<open>Exception\<close>, so no \<^verbatim>\<open>except\<close> clause of the
  script catches it.
\<close>

datatype exc_class =
    Exception | KeyError | ValueError | NameError | UnboundLocalError
  | OSError | FileNotFoundError | DockerException | BuildError | APIError
  | RequestException

datatype error = Error exc_class string | SystemExit

fun str :: "error \<Rightarrow> string" where
  "str (Error c m) = m"
| "str SystemExit = ''1''"

text \<open>The part of Python's class hierarchy the script's \<^verbatim>\<open>except\<close> clauses look at.\<close>

fun issubclass :: "exc_class \<Rightarrow> exc_class \<Rightarrow> bool" where
  "issubclass c Exception = True"
| "issubclass UnboundLocalError NameError = True"
| "issubclass FileNotFoundError OSError = True"
| "issubclass RequestException OSError = True"
| "issubclass APIError OSError = True"
| "issubclass APIError RequestException = True"
| "issubclass APIError DockerException = True"
| "issubclass BuildError DockerException = True"
| "issubclass c d = (c = d)"

fun isinstance :: "error \<Rightarrow> exc_class \<Rightarrow> bool" where
  "isinstance (Error c m) d = issubclass c d"
| "isinstance SystemExit d = False"

definition sq :: string where
  "sq = [CHR 0x27]"

definition nl :: string where
  "nl = [CHR 0x0A]"

definition py_repr :: "string \<Rightarrow> string" where
  \<comment> \<open>\<^verbatim>\<open>repr\<close> of a string without quotes or escapes in it, as the keys used here are\<close>
  "py_repr s = sq @ s @ sq"

definition str_lower :: "string \<Rightarrow> string" where
  \<comment> \<open>\<^verbatim>\<open>str.lower\<close> on ASCII letters\<close>
  "str_lower s =
     map (\<lambda>c. case map_of (zip ''ABCDEFGHIJKLMNOPQRSTUVWXYZ'' ''abcdefghijklmnopqrstuvwxyz'') c of
                 None \<Rightarrow> c | Some l \<Rightarrow> l) s"

definition is_space :: "char \<Rightarrow> bool" where
  \<comment> \<open>the characters below \<^verbatim>\<open>U+0100\<close> that \<^verbatim>\<open>str.strip\<close> removes; it is applied to build-log lines only\<close>
  "is_space c = (c \<in> set [CHR 0x20, CHR 0x09, CHR 0x0A, CHR 0x0B, CHR 0x0C, CHR 0x0D,
                           CHR 0x1C, CHR 0x1D, CHR 0x1E, CHR 0x1F, CHR 0x85, CHR 0xA0])"

definition strip :: "string \<Rightarrow> string" where
  "strip s = rev (dropWhile is_space (rev (dropWhile is_space s)))"

definition truthy :: "string option \<Rightarrow> bool" where
  \<comment> \<open>\<^verbatim>\<open>if x:\<close> for a value that is \<^verbatim>\<open>None\<close> or a string\<close>
  "truthy x = (case x of None \<Rightarrow> False | Some s \<Rightarrow> s \<noteq> [])"


section \<open>The configuration object\<close>

text \<open>
  A \<^verbatim>\<open>configparser.ConfigParser\<close> holds the options of the \<^verbatim>\<open>DEFAULT\<close> section and the
  named sections, both insertion-ordered dictionaries; option names are stored in lower
  case (\<^verbatim>\<open>optionxform\<close>).
\<close>

type_synonym options = "(string \<times> string) list"

record ConfigParser =
  defaults :: options
  sections :: "(string \<times> options) list"

definition empty_config :: ConfigParser where
  "empty_config = \<lparr>defaults = [], sections = []\<rparr>"

definition section_dict :: "ConfigParser \<Rightarrow> string \<Rightarrow> options option" where
  "section_dict c section =
     (if section = ''DEFAULT'' then Some [] else map_of (sections c) section)"

text \<open>\<^verbatim>\<open>RawConfigParser.write\<close>: the successive arguments of \<^verbatim>\<open>fp.write\<close>.\<close>

definition write_section :: "string \<Rightarrow> options \<Rightarrow> string list" where
  "write_section section_name section_items =
     (''['' @ section_name @ '']'' @ nl)
     # map (\<lambda>(key, v). key @ '' = '' @ concat (map (\<lambda>c. if [c] = nl then nl @ [CHR 0x09] else [c]) v) @ nl)
           section_items
     @ [nl]"

definition config_write_calls :: "ConfigParser \<Rightarrow> string list" where
  "config_write_calls c =
     (if defaults c \<noteq> [] then write_section ''DEFAULT'' (defaults c) else [])
     @ concat (map (\<lambda>(section, items). write_section section items) (sections c))"

definition config_write :: "ConfigParser \<Rightarrow> string" where
  "config_write c = concat (config_write_calls c)"


section \<open>The world outside the script\<close>

type_synonym image = string
type_synonym build_log = "(string \<times> string) list"

datatype level = INFO | WARNING | ERROR

datatype message =
    DeploymentSuccessful
  | DeploymentFailed string
  | RolledBack string
  | RollbackFailed string

text \<open>
  The four texts handed to \<^verbatim>\<open>send_slack_notification\<close>; the string is the interpolated
  \<^verbatim>\<open>str(e)\<close>, \<^verbatim>\<open>previous_tag\<close> or \<^verbatim>\<open>str(rollback_error)\<close>.

  An event is one observable action of the run, in the order of execution.
  \<open>Notify\<close> marks a call of \<^verbatim>\<open>send_slack_notification\<close> and \<open>Rollback\<close> the entry of
  \<^verbatim>\<open>rollback_deployment\<close> with its two arguments; the others are calls out of the process.
\<close>

datatype event =
    Log level string
  | VenvCreate string
  | System string
  | DockerFromEnv
  | ImagesBuild string string string
  | ImageTag image string string
  | Login "string option" "string option"
  | ImagesPush string string
  | OpenW string
  | Notify message
  | Post string message
  | Rollback string string

text \<open>
  The environment of one run: the module-level settings read from the process environment,
  and the behaviour of every library and system call the script makes.
\<close>

record env =
  CONFIG_FILE :: string
  VENV_NAME :: string
  REQUIREMENTS_FILE :: string
  TEST_DIR :: string
  DOCKERFILE :: string
  BUILD_CONTEXT :: string
  DOCKER_USERNAME :: "string option"
  DOCKER_PASSWORD :: "string option"
  SLACK_WEBHOOK_URL :: "string option"
  configparser_read :: "string \<Rightarrow> error + ConfigParser"
  before_get :: "ConfigParser \<Rightarrow> string \<Rightarrow> string \<Rightarrow> string \<Rightarrow> error + string"
  before_set :: "string \<Rightarrow> error option"
  venv_create :: "string \<Rightarrow> error option"
  sys_platform :: string
  os_path_join :: "string list \<Rightarrow> string"
  os_path_exists :: "string \<Rightarrow> bool"
  os_system :: "string \<Rightarrow> int"
  docker_from_env :: "error option"
  images_build :: "string \<Rightarrow> string \<Rightarrow> string \<Rightarrow> error + (image \<times> build_log list)"
  image_tag :: "image \<Rightarrow> string \<Rightarrow> string \<Rightarrow> error option"
  client_login :: "string option \<Rightarrow> string option \<Rightarrow> error option"
  images_push :: "string \<Rightarrow> string \<Rightarrow> string list \<times> error option"
  open_w :: "string \<Rightarrow> error option"
  io_buffer_size :: nat
  io_flushed :: "string \<Rightarrow> nat"
  os_write :: "string \<Rightarrow> (nat \<times> error) option"
  requests_post :: "string \<Rightarrow> message \<Rightarrow> (exc_class \<times> string) option"

text \<open>
  \<open>configparser_read\<close> parses the text of the configuration file; \<open>before_get\<close> and
  \<open>before_set\<close> are the parser's value interpolation on reading and its check on assigning.
  \<open>images_push\<close> gives the lines the push stream yields and the exception that ends it, if
  any.  Each of these calls may raise any exception, \<open>SystemExit\<close> included.

  A file opened for writing keeps the text written to it in memory: \<open>io_buffer_size\<close> is
  the amount of pending text from which on the file object hands text to the operating
  system before it is closed, \<open>io_flushed\<close> how much of the pending text it then hands
  over, and \<open>os_write\<close> tells whether the operating system takes a text
  (\<open>None\<close>) or takes its first \<open>n\<close> characters and fails (\<open>Some (n, err)\<close>).

  \<open>requests_post\<close> gives the class and the text of the exception that \<^verbatim>\<open>requests.post\<close> or
  \<^verbatim>\<open>raise_for_status\<close> raises, if any.  It need not be a \<^verbatim>\<open>RequestException\<close>: an
  exception of the underlying HTTP library can pass through \<^verbatim>\<open>requests.post\<close> as it is.
\<close>


section \<open>State and actions\<close>

text \<open>
  The state of a run: the events so far, the text of the configuration file on disk
  (\<open>None\<close> when there is no such file), the text that the file object open on it still
  holds in memory (\<open>None\<close> when no file is open), and the two locals of \<^verbatim>\<open>main\<close> that are
  read after they may have changed: the parser object \<^verbatim>\<open>config\<close> and \<^verbatim>\<open>repository\<close>,
  which is unbound (\<open>None\<close>) until its assignment has run.
\<close>

record state =
  trace :: "event list"
  config_file :: "string option"
  buffer :: "string option"
  config :: ConfigParser
  repository :: "string option"

type_synonym 'a action = "state \<Rightarrow> (error + 'a) \<times> state"

definition return :: "'a \<Rightarrow> 'a action" where
  "return x = (\<lambda>st. (Inr x, st))"

definition raise :: "error \<Rightarrow> 'a action" where
  "raise e = (\<lambda>st. (Inl e, st))"

definition bind :: "'a action \<Rightarrow> ('a \<Rightarrow> 'b action) \<Rightarrow> 'b action" where
  "bind m f = (\<lambda>st. case m st of (Inl e, st') \<Rightarrow> (Inl e, st') | (Inr x, st') \<Rightarrow> f x st')"

definition emit :: "event \<Rightarrow> unit action" where
  "emit ev = (\<lambda>st. (Inr (), st\<lparr>trace := trace st @ [ev]\<rparr>))"

definition check :: "error option \<Rightarrow> unit action" where
  "check r = (case r of None \<Rightarrow> return () | Some e \<Rightarrow> raise e)"

definition result_of :: "error + 'a \<Rightarrow> 'a action" where
  "result_of r = (case r of Inl e \<Rightarrow> raise e | Inr x \<Rightarrow> return x)"

definition try_except :: "'a action \<Rightarrow> exc_class \<Rightarrow> (error \<Rightarrow> 'a action) \<Rightarrow> 'a action" where
  "try_except body c handler =
     (\<lambda>st. case body st of
             (Inl e, st') \<Rightarrow> if isinstance e c then handler e st' else (Inl e, st')
           | (Inr x, st') \<Rightarrow> (Inr x, st'))"

primrec run_steps :: "unit action list \<Rightarrow> unit action" where
  \<comment> \<open>statements one after the other, up to the first that raises\<close>
  "run_steps [] = return ()"
| "run_steps (a # as) = bind a (\<lambda>_. run_steps as)"

primrec log_each :: "string list \<Rightarrow> unit action" where
  "log_each [] = return ()"
| "log_each (l # ls) = bind (emit (Log INFO l)) (\<lambda>_. log_each ls)"


section \<open>Reading and assigning options\<close>

definition config_getitem :: "env \<Rightarrow> ConfigParser \<Rightarrow> string \<Rightarrow> string \<Rightarrow> error + string" where
  \<comment> \<open>\<^verbatim>\<open>config[section][option]\<close>\<close>
  "config_getitem e c section option =
     (case section_dict c section of
        None \<Rightarrow> Inl (Error KeyError (py_repr section))
      | Some sectdict \<Rightarrow>
          (case map_of (sectdict @ defaults c) (str_lower option) of
             None \<Rightarrow> Inl (Error KeyError (py_repr option))
           | Some raw \<Rightarrow> before_get e c section (str_lower option) raw))"

definition config_set :: "ConfigParser \<Rightarrow> string \<Rightarrow> string \<Rightarrow> string \<Rightarrow> ConfigParser" where
  "config_set c section option v =
     (if section = ''DEFAULT'' then c\<lparr>defaults := AList.update (str_lower option) v (defaults c)\<rparr>
      else c\<lparr>sections := AList.map_entry section (AList.update (str_lower option) v) (sections c)\<rparr>)"

definition config_setitem :: "env \<Rightarrow> ConfigParser \<Rightarrow> string \<Rightarrow> string \<Rightarrow> string \<Rightarrow> error + ConfigParser" where
  \<comment> \<open>\<^verbatim>\<open>config[section][option] = v\<close>\<close>
  "config_setitem e c section option v =
     (case section_dict c section of
        None \<Rightarrow> Inl (Error KeyError (py_repr section))
      | Some sectdict \<Rightarrow>
          (case (if v \<noteq> [] then before_set e v else None) of
             Some err \<Rightarrow> Inl err
           | None \<Rightarrow> Inr (config_set c section option v)))"

definition getitem :: "env \<Rightarrow> string \<Rightarrow> string \<Rightarrow> string action" where
  "getitem e section option = (\<lambda>st. (config_getitem e (config st) section option, st))"

definition setitem :: "env \<Rightarrow> string \<Rightarrow> string \<Rightarrow> string \<Rightarrow> unit action" where
  "setitem e section option v =
     (\<lambda>st. case config_setitem e (config st) section option v of
             Inl err \<Rightarrow> (Inl err, st)
           | Inr c \<Rightarrow> (Inr (), st\<lparr>config := c\<rparr>))"


section \<open>The functions of the script\<close>

definition load_config :: "env \<Rightarrow> string \<Rightarrow> ConfigParser action" where
  "load_config e config_file_name =
     bind (emit (Log INFO (''Loading configuration from '' @ config_file_name))) (\<lambda>_.
     (\<lambda>st. case config_file st of
              None \<Rightarrow> (Inr empty_config, st)
            | Some content \<Rightarrow> (configparser_read e content, st)))"

definition create_venv :: "env \<Rightarrow> string \<Rightarrow> unit action" where
  "create_venv e venv_name =
     bind (emit (Log INFO (''Creating virtual environment: '' @ venv_name))) (\<lambda>_.
     bind (emit (VenvCreate venv_name)) (\<lambda>_.
     check (venv_create e venv_name)))"

definition get_venv_python :: "env \<Rightarrow> string \<Rightarrow> string" where
  "get_venv_python e venv_name =
     (if sys_platform e = ''win32'' then os_path_join e [venv_name, ''Scripts'', ''python.exe'']
      else os_path_join e [venv_name, ''bin'', ''python''])"

definition system :: "env \<Rightarrow> string \<Rightarrow> int action" where
  \<comment> \<open>\<^verbatim>\<open>os.system(command)\<close>: runs the command and returns its exit status\<close>
  "system e command = bind (emit (System command)) (\<lambda>_. return (os_system e command))"

definition pip_command :: "string \<Rightarrow> string \<Rightarrow> string" where
  "pip_command venv_python requirements_file =
     venv_python @ '' -m pip install -r '' @ requirements_file"

definition unittest_command :: "string \<Rightarrow> string \<Rightarrow> string" where
  "unittest_command venv_python test_dir = venv_python @ '' -m unittest discover '' @ test_dir"

definition install_dependencies :: "env \<Rightarrow> string \<Rightarrow> string \<Rightarrow> unit action" where
  "install_dependencies e venv_python requirements_file =
     (if os_path_exists e requirements_file then
        bind (emit (Log INFO (''Installing dependencies from '' @ requirements_file))) (\<lambda>_.
        bind (system e (pip_command venv_python requirements_file)) (\<lambda>_.
        return ()))
      else
        raise (Error FileNotFoundError
                 (''Requirements file '' @ requirements_file @ '' not found.'')))"

text \<open>
  \<^verbatim>\<open>run_tests\<close> means to raise \<^verbatim>\<open>subprocess.CalledProcessError\<close>, but the module never
  imports \<^verbatim>\<open>subprocess\<close>: evaluating the name raises \<^verbatim>\<open>NameError\<close> instead.
\<close>

definition run_tests :: "env \<Rightarrow> string \<Rightarrow> string \<Rightarrow> unit action" where
  "run_tests e venv_python test_dir =
     bind (emit (Log INFO ''Running unit tests'')) (\<lambda>_.
     bind (system e (unittest_command venv_python test_dir)) (\<lambda>result.
     if result \<noteq> 0 then
       raise (Error NameError (''name '' @ sq @ ''subprocess'' @ sq @ '' is not defined''))
     else return ()))"

definition stream_lines :: "build_log list \<Rightarrow> string list" where
  "stream_lines build_logs =
     map (\<lambda>l. strip (the (map_of l ''stream'')))
         (filter (\<lambda>l. map_of l ''stream'' \<noteq> None) build_logs)"

definition build_docker_image :: "env \<Rightarrow> string \<Rightarrow> string \<Rightarrow> string \<Rightarrow> image action" where
  "build_docker_image e image_name dockerfile_path build_context =
     bind (emit (Log INFO (''Building Docker image: '' @ image_name))) (\<lambda>_.
     bind (emit DockerFromEnv) (\<lambda>_.
     bind (check (docker_from_env e)) (\<lambda>_.
     try_except
       (bind (emit (ImagesBuild build_context dockerfile_path image_name)) (\<lambda>_.
        bind (result_of (images_build e build_context dockerfile_path image_name)) (\<lambda>(img, build_logs).
        bind (log_each (stream_lines build_logs)) (\<lambda>_.
        return img))))
       BuildError
       (\<lambda>err. bind (emit (Log ERROR (''Docker build failed: '' @ str err))) (\<lambda>_. raise err)))))"

definition tag_docker_image :: "env \<Rightarrow> image \<Rightarrow> string \<Rightarrow> string \<Rightarrow> unit action" where
  "tag_docker_image e img repo tag =
     bind (emit (Log INFO (''Tagging Docker image: '' @ repo @ '':'' @ tag))) (\<lambda>_.
     try_except
       (bind (emit (ImageTag img repo tag)) (\<lambda>_. check (image_tag e img repo tag)))
       APIError
       (\<lambda>err. bind (emit (Log ERROR (''Failed to tag Docker image: '' @ str err))) (\<lambda>_. raise err)))"

definition push_docker_image ::
  "env \<Rightarrow> string \<Rightarrow> string \<Rightarrow> string option \<Rightarrow> string option \<Rightarrow> unit action" where
  "push_docker_image e repo tag username password =
     bind (emit (Log INFO (''Pushing Docker image: '' @ repo @ '':'' @ tag))) (\<lambda>_.
     bind (emit DockerFromEnv) (\<lambda>_.
     bind (check (docker_from_env e)) (\<lambda>_.
     try_except
       (bind (emit (Login username password)) (\<lambda>_.
        bind (check (client_login e username password)) (\<lambda>_.
        bind (emit (ImagesPush repo tag)) (\<lambda>_.
        bind (log_each (fst (images_push e repo tag))) (\<lambda>_.
        check (snd (images_push e repo tag)))))))
       APIError
       (\<lambda>err. bind (emit (Log ERROR (''Failed to push Docker image: '' @ str err))) (\<lambda>_. raise err)))))"

definition post :: "env \<Rightarrow> string \<Rightarrow> message \<Rightarrow> unit action" where
  \<comment> \<open>\<^verbatim>\<open>requests.post(url, json={"text": message})\<close> followed by \<^verbatim>\<open>raise_for_status()\<close>\<close>
  "post e url msg =
     bind (emit (Post url msg)) (\<lambda>_.
     case requests_post e url msg of
       None \<Rightarrow> return ()
     | Some (c, m) \<Rightarrow> raise (Error c m))"

definition send_slack_notification :: "env \<Rightarrow> message \<Rightarrow> unit action" where
  "send_slack_notification e msg =
     bind (emit (Notify msg)) (\<lambda>_.
     if truthy (SLACK_WEBHOOK_URL e) then
       try_except
         (bind (post e (the (SLACK_WEBHOOK_URL e)) msg) (\<lambda>_.
          emit (Log INFO ''Slack notification sent successfully'')))
         RequestException
         (\<lambda>err. emit (Log ERROR (''Failed to send Slack notification: '' @ str err)))
     else
       emit (Log WARNING ''Slack webhook URL not configured. Skipping notification.''))"

definition rollback_deployment :: "string \<Rightarrow> string \<Rightarrow> unit action" where
  "rollback_deployment repo previous_tag =
     bind (emit (Rollback repo previous_tag)) (\<lambda>_.
     bind (emit (Log INFO (''Rolling back to previous deployment: '' @ repo @ '':'' @ previous_tag))) (\<lambda>_.
     try_except
       (return ())
       Exception
       (\<lambda>err. bind (emit (Log ERROR (''Rollback failed: '' @ str err))) (\<lambda>_. raise err))))"


section \<open>Persisting the configuration\<close>

text \<open>
  \<^verbatim>\<open>with open(CONFIG_FILE, 'w') as configfile: config.write(configfile)\<close>.
  Opening for writing empties the file where it lies.  \<^verbatim>\<open>fp.write\<close> adds to the text the
  file object holds in memory, and hands text to the operating system only once the
  pending text has reached the buffer size.  Closing the file hands over what is pending.
  The \<^verbatim>\<open>with\<close> statement closes the file also when its body raises.
\<close>

definition on_disk :: "state \<Rightarrow> string" where
  "on_disk st = (case config_file st of None \<Rightarrow> [] | Some t \<Rightarrow> t)"

definition pending :: "state \<Rightarrow> string" where
  "pending st = (case buffer st of None \<Rightarrow> [] | Some t \<Rightarrow> t)"

definition open_for_writing :: "env \<Rightarrow> string \<Rightarrow> unit action" where
  "open_for_writing e name =
     bind (emit (OpenW name)) (\<lambda>_.
     bind (check (open_w e name)) (\<lambda>_.
     (\<lambda>st. (Inr (), st\<lparr>config_file := Some [], buffer := Some []\<rparr>))))"

definition flush_to_disk :: "env \<Rightarrow> string \<Rightarrow> unit action" where
  "flush_to_disk e t =
     (\<lambda>st. case os_write e t of
             None \<Rightarrow> (Inr (), st\<lparr>config_file := Some (on_disk st @ t)\<rparr>)
           | Some (n, err) \<Rightarrow> (Inl err, st\<lparr>config_file := Some (on_disk st @ take n t)\<rparr>))"

definition fp_write :: "env \<Rightarrow> string \<Rightarrow> unit action" where
  "fp_write e s =
     (\<lambda>st. if length (pending st @ s) < io_buffer_size e
           then (Inr (), st\<lparr>buffer := Some (pending st @ s)\<rparr>)
           else flush_to_disk e (take (io_flushed e (pending st @ s)) (pending st @ s))
                  (st\<lparr>buffer := Some (drop (io_flushed e (pending st @ s)) (pending st @ s))\<rparr>))"

definition close_file :: "env \<Rightarrow> unit action" where
  "close_file e = (\<lambda>st. flush_to_disk e (pending st) (st\<lparr>buffer := None\<rparr>))"

definition config_write_to :: "env \<Rightarrow> unit action" where
  \<comment> \<open>\<^verbatim>\<open>config.write(configfile)\<close>: one \<^verbatim>\<open>fp.write\<close> after the other\<close>
  "config_write_to e = (\<lambda>st. run_steps (map (fp_write e) (config_write_calls (config st))) st)"

definition write_config_file :: "env \<Rightarrow> unit action" where
  "write_config_file e =
     bind (open_for_writing e (CONFIG_FILE e)) (\<lambda>_.
     (\<lambda>st. case config_write_to e st of
             (Inr u, st') \<Rightarrow> close_file e st'
           | (Inl err, st') \<Rightarrow>
               (case close_file e st' of
                  (Inr u, st'') \<Rightarrow> (Inl err, st'')
                | (Inl err', st'') \<Rightarrow> (Inl err', st''))))"

text \<open>
  The statements of the block in the order in which an undisturbed run executes them, and
  the block when the process is killed after the first \<open>j\<close> of them: what the file holds
  then is what a later run finds.
\<close>

definition block_steps :: "env \<Rightarrow> ConfigParser \<Rightarrow> unit action list" where
  "block_steps e c =
     open_for_writing e (CONFIG_FILE e) # map (fp_write e) (config_write_calls c) @ [close_file e]"

definition write_config_file_killed :: "env \<Rightarrow> nat \<Rightarrow> unit action" where
  "write_config_file_killed e j = (\<lambda>st. run_steps (take j (block_steps e (config st))) st)"


section \<open>The orchestrator\<close>

definition unbound_local :: "string \<Rightarrow> error" where
  \<comment> \<open>reading a local variable that has no value yet; the text is the one of Python 3.11 on\<close>
  "unbound_local name =
     Error UnboundLocalError
       (''cannot access local variable '' @ sq @ name @ sq
        @ '' where it is not associated with a value'')"

definition read_repository :: "string action" where
  "read_repository =
     (\<lambda>st. case repository st of
             None \<Rightarrow> (Inl (unbound_local ''repository''), st)
           | Some r \<Rightarrow> (Inr r, st))"

definition assign_repository :: "string \<Rightarrow> unit action" where
  "assign_repository r = (\<lambda>st. (Inr (), st\<lparr>repository := Some r\<rparr>))"

definition assign_config :: "ConfigParser \<Rightarrow> unit action" where
  "assign_config c = (\<lambda>st. (Inr (), st\<lparr>config := c\<rparr>))"

definition main_docker :: "env \<Rightarrow> unit action" where
  \<comment> \<open>the \<^verbatim>\<open>try\<close> block of \<^verbatim>\<open>main\<close> from the comment \<^verbatim>\<open># Docker operations\<close> on\<close>
  "main_docker e =
     bind (getitem e ''Docker'' ''ImageName'') (\<lambda>image_name.
     bind (getitem e ''Docker'' ''Repository'') (\<lambda>repo.
     bind (assign_repository repo) (\<lambda>_.
     bind (getitem e ''Docker'' ''Version'') (\<lambda>version.
     bind (build_docker_image e image_name (DOCKERFILE e) (BUILD_CONTEXT e)) (\<lambda>img.
     bind (tag_docker_image e img repo (''v'' @ version)) (\<lambda>_.
     bind (push_docker_image e repo (''v'' @ version) (DOCKER_USERNAME e) (DOCKER_PASSWORD e)) (\<lambda>_.
     bind (setitem e ''Docker'' ''Tag'' (''v'' @ version)) (\<lambda>_.
     bind (write_config_file e) (\<lambda>_.
     bind (emit (Log INFO ''Build and deployment process completed successfully!'')) (\<lambda>_.
     send_slack_notification e DeploymentSuccessful))))))))))"

definition main_try :: "env \<Rightarrow> unit action" where
  \<comment> \<open>the whole \<^verbatim>\<open>try\<close> block of \<^verbatim>\<open>main\<close>\<close>
  "main_try e =
     bind (create_venv e (VENV_NAME e)) (\<lambda>_.
     bind (install_dependencies e (get_venv_python e (VENV_NAME e)) (REQUIREMENTS_FILE e)) (\<lambda>_.
     bind (run_tests e (get_venv_python e (VENV_NAME e)) (TEST_DIR e)) (\<lambda>_.
     main_docker e)))"

definition main_rollback :: "env \<Rightarrow> string \<Rightarrow> unit action" where
  \<comment> \<open>the inner \<^verbatim>\<open>try\<close> of the handler\<close>
  "main_rollback e previous_tag =
     bind read_repository (\<lambda>repo.
     bind (rollback_deployment repo previous_tag) (\<lambda>_.
     send_slack_notification e (RolledBack previous_tag)))"

definition main_except :: "env \<Rightarrow> string \<Rightarrow> error \<Rightarrow> int action" where
  \<comment> \<open>the handler of \<^verbatim>\<open>main\<close>, ending in \<^verbatim>\<open>sys.exit(1)\<close>\<close>
  "main_except e previous_tag err =
     bind (emit (Log ERROR (''Build and deployment process failed: '' @ str err))) (\<lambda>_.
     bind (send_slack_notification e (DeploymentFailed (str err))) (\<lambda>_.
     bind (try_except
             (main_rollback e previous_tag)
             Exception
             (\<lambda>rollback_error.
                bind (emit (Log ERROR (''Rollback failed: '' @ str rollback_error))) (\<lambda>_.
                send_slack_notification e (RollbackFailed (str rollback_error))))) (\<lambda>_.
     return 1)))"

definition main_body :: "env \<Rightarrow> int action" where
  "main_body e =
     bind (load_config e (CONFIG_FILE e)) (\<lambda>c.
     bind (assign_config c) (\<lambda>_.
     bind (getitem e ''Docker'' ''Tag'') (\<lambda>previous_tag.
     try_except
       (bind (main_try e) (\<lambda>_. return 0))
       Exception
       (main_except e previous_tag))))"

text \<open>
  How the process ends: with an exit status (\<open>0\<close> when \<^verbatim>\<open>main\<close> returns, the argument of
  the script's \<^verbatim>\<open>sys.exit\<close> otherwise), or with an exception that leaves \<^verbatim>\<open>main\<close>: the
  interpreter reports it and ends with status \<open>1\<close>, which is also the status of the
  \<open>SystemExit\<close> of a library.
\<close>

datatype ending = Exit int | Uncaught error

fun exit_status :: "ending \<Rightarrow> int" where
  "exit_status (Exit n) = n"
| "exit_status (Uncaught err) = 1"

definition initial_state :: "string option \<Rightarrow> state" where
  "initial_state file =
     \<lparr>trace = [], config_file = file, buffer = None, config = empty_config, repository = None\<rparr>"

definition finish :: "(error + int) \<times> state \<Rightarrow> ending \<times> state" where
  "finish r = (case r of (Inr n, st) \<Rightarrow> (Exit n, st) | (Inl err, st) \<Rightarrow> (Uncaught err, st))"

definition main :: "env \<Rightarrow> string option \<Rightarrow> ending \<times> state" where
  "main e file = finish (main_body e (initial_state file))"


section \<open>Observations on a run\<close>

text \<open>The messages handed to \<^verbatim>\<open>send_slack_notification\<close>, in order.\<close>

fun notified :: "event list \<Rightarrow> message list" where
  "notified [] = []"
| "notified (Notify m # es) = m # notified es"
| "notified (ev # es) = notified es"

text \<open>The argument pairs with which \<^verbatim>\<open>rollback_deployment\<close> was entered, in order.\<close>

fun rollbacks :: "event list \<Rightarrow> (string \<times> string) list" where
  "rollbacks [] = []"
| "rollbacks (Rollback r p # es) = (r, p) # rollbacks es"
| "rollbacks (ev # es) = rollbacks es"

text \<open>The commands handed to \<^verbatim>\<open>os.system\<close>, in order.\<close>

fun commands :: "event list \<Rightarrow> string list" where
  "commands [] = []"
| "commands (System c # es) = c # commands es"
| "commands (ev # es) = commands es"

text \<open>The events of one call of \<^verbatim>\<open>send_slack_notification\<close>.\<close>

definition notification_events :: "env \<Rightarrow> message \<Rightarrow> event list" where
  "notification_events e msg =
     (if truthy (SLACK_WEBHOOK_URL e) then
        [Notify msg, Post (the (SLACK_WEBHOOK_URL e)) msg]
        @ (case requests_post e (the (SLACK_WEBHOOK_URL e)) msg of
             None \<Rightarrow> [Log INFO ''Slack notification sent successfully'']
           | Some (c, m) \<Rightarrow>
               if issubclass c RequestException
               then [Log ERROR (''Failed to send Slack notification: '' @ m)] else [])
      else [Notify msg, Log WARNING ''Slack webhook URL not configured. Skipping notification.''])"

text \<open>The exception that leaves one call of \<^verbatim>\<open>send_slack_notification\<close>, if any.\<close>

definition delivery :: "env \<Rightarrow> message \<Rightarrow> error option" where
  "delivery e msg =
     (if truthy (SLACK_WEBHOOK_URL e) then
        (case requests_post e (the (SLACK_WEBHOOK_URL e)) msg of
           None \<Rightarrow> None
         | Some (c, m) \<Rightarrow> if issubclass c RequestException then None else Some (Error c m))
      else None)"

text \<open>Every exception a delivery raises is a \<^verbatim>\<open>RequestException\<close>.\<close>

definition only_request_exceptions :: "(string \<Rightarrow> message \<Rightarrow> (exc_class \<times> string) option) \<Rightarrow> bool" where
  "only_request_exceptions q = (\<forall>url msg c m. q url msg = Some (c, m) \<longrightarrow> issubclass c RequestException)"

text \<open>The value stored for an option of a named section.\<close>

definition raw_option :: "ConfigParser \<Rightarrow> string \<Rightarrow> string \<Rightarrow> string option" where
  "raw_option c section option =
     (case map_of (sections c) section of None \<Rightarrow> None | Some d \<Rightarrow> map_of d option)"

text \<open>
  The value of \<^verbatim>\<open>Tag\<close> in the configuration as it lies on disk when the run starts:
  what \<^verbatim>\<open>config['Docker']['Tag']\<close> gives on the freshly loaded file.
\<close>

definition initial_config :: "env \<Rightarrow> string option \<Rightarrow> error + ConfigParser" where
  "initial_config e file =
     (case file of None \<Rightarrow> Inr empty_config | Some content \<Rightarrow> configparser_read e content)"

definition initial_tag :: "env \<Rightarrow> string option \<Rightarrow> error + string" where
  "initial_tag e file =
     (case initial_config e file of
        Inl err \<Rightarrow> Inl err
      | Inr c \<Rightarrow> config_getitem e c ''Docker'' ''Tag'')"


section \<open>Concrete runs\<close>

definition cfg_v1 :: ConfigParser where
  "cfg_v1 =
     \<lparr>defaults = [],
      sections = [(''Docker'', [(''imagename'', ''app''), (''repository'', ''acme/app''),
                               (''tag'', ''v1.0''), (''version'', ''2.0'')])]\<rparr>"

definition cfg_v2 :: ConfigParser where
  "cfg_v2 =
     \<lparr>defaults = [],
      sections = [(''Docker'', [(''imagename'', ''app''), (''repository'', ''acme/app''),
                               (''tag'', ''v2.0''), (''version'', ''2.0'')])]\<rparr>"

definition text_v1 :: string where
  "text_v1 =
     ''[Docker]'' @ nl @ ''imagename = app'' @ nl @ ''repository = acme/app'' @ nl
     @ ''tag = v1.0'' @ nl @ ''version = 2.0'' @ nl @ nl"

definition text_v2 :: string where
  "text_v2 =
     ''[Docker]'' @ nl @ ''imagename = app'' @ nl @ ''repository = acme/app'' @ nl
     @ ''tag = v2.0'' @ nl @ ''version = 2.0'' @ nl @ nl"

definition file_v1 :: "string option" where
  "file_v1 = Some text_v1"

fun join_slash :: "string list \<Rightarrow> string" where
  "join_slash [] = []"
| "join_slash [p] = p"
| "join_slash (p # ps) = p @ ''/'' @ join_slash ps"

text \<open>A run on Linux in which every call succeeds and no webhook is configured.\<close>

definition env_ok :: env where
  "env_ok =
     \<lparr>CONFIG_FILE = ''config.ini'', VENV_NAME = ''venv'',
      REQUIREMENTS_FILE = ''requirements.txt'', TEST_DIR = ''tests'',
      DOCKERFILE = ''Dockerfile'', BUILD_CONTEXT = ''.'',
      DOCKER_USERNAME = Some ''bot'', DOCKER_PASSWORD = Some ''secret'',
      SLACK_WEBHOOK_URL = None,
      configparser_read = (\<lambda>content. if content = text_v1 then Inr cfg_v1
                                           else Inl (Error Exception ''unreadable'')),
      before_get = (\<lambda>c section option raw. Inr raw),
      before_set = (\<lambda>v. None),
      venv_create = (\<lambda>name. None),
      sys_platform = ''linux'',
      os_path_join = join_slash,
      os_path_exists = (\<lambda>path. True),
      os_system = (\<lambda>command. 0),
      docker_from_env = None,
      images_build = (\<lambda>path dockerfile tag. Inr (''sha256:0a'', [[(''stream'', '' built '')]])),
      image_tag = (\<lambda>img repo tag. None),
      client_login = (\<lambda>username password. None),
      images_push = (\<lambda>repo tag. ([''pushed''], None)),
      open_w = (\<lambda>name. None),
      io_buffer_size = 8192,
      io_flushed = (\<lambda>t. length t),
      os_write = (\<lambda>t. None),
      requests_post = (\<lambda>url msg. None)\<rparr>"

definition env_no_manifest :: env where
  "env_no_manifest = env_ok\<lparr>os_path_exists := (\<lambda>path. False)\<rparr>"

definition env_pip_fails :: env where
  "env_pip_fails =
     env_ok\<lparr>os_system :=
       (\<lambda>command. if command = ''venv/bin/python -m pip install -r requirements.txt'' then 256 else 0)\<rparr>"

definition env_tests_fail :: env where
  "env_tests_fail =
     env_ok\<lparr>os_system :=
       (\<lambda>command. if command = ''venv/bin/python -m unittest discover tests'' then 256 else 0)\<rparr>"

definition env_build_fails :: env where
  "env_build_fails =
     env_ok\<lparr>images_build := (\<lambda>path dockerfile tag. Inl (Error BuildError ''no space left''))\<rparr>"

definition env_push_fails :: env where
  "env_push_fails =
     env_ok\<lparr>images_push := (\<lambda>repo tag. ([], Some (Error APIError ''unauthorized'')))\<rparr>"

definition env_open_fails :: env where
  "env_open_fails = env_ok\<lparr>open_w := (\<lambda>name. Some (Error OSError ''Permission denied''))\<rparr>"



text \<open>\<^verbatim>\<open>venv.create\<close> ends in \<^verbatim>\<open>sys.exit(1)\<close>.\<close>

definition env_venv_exits :: env where
  "env_venv_exits = env_ok\<lparr>venv_create := (\<lambda>name. Some SystemExit)\<rparr>"

text \<open>
  The build fails, the webhook is configured, and the one delivery that fails is that of
  the rolled-back message, with an exception that is no \<^verbatim>\<open>RequestException\<close>.
\<close>

definition env_rolled_back_undelivered :: env where
  "env_rolled_back_undelivered =
     env_build_fails\<lparr>SLACK_WEBHOOK_URL := Some ''https://hooks.example/T0'',
       requests_post :=
         (\<lambda>url msg. if msg = RolledBack ''v1.0'' then Some (ValueError, ''bad header'') else None)\<rparr>"


section \<open>How the actions run\<close>

text \<open>Each action applied to a state, in closed form.\<close>

lemma bind_apply:
  "bind m f st = (case m st of (Inl err, st') \<Rightarrow> (Inl err, st') | (Inr x, st') \<Rightarrow> f x st')"
  by (simp add: bind_def)

lemma return_apply: "return x st = (Inr x, st)"
  by (simp add: return_def)

lemma raise_apply: "raise err st = (Inl err, st)"
  by (simp add: raise_def)

lemma emit_apply: "emit ev st = (Inr (), st\<lparr>trace := trace st @ [ev]\<rparr>)"
  by (simp add: emit_def)

lemma check_apply: "check r st = (case r of None \<Rightarrow> Inr () | Some err \<Rightarrow> Inl err, st)"
  by (simp add: check_def return_def raise_def split: option.splits)

lemma result_of_apply: "result_of r st = (r, st)"
  by (simp add: result_of_def return_def raise_def split: sum.splits)

lemma try_except_apply:
  "try_except body c handler st =
     (case body st of
        (Inl err, st') \<Rightarrow> if isinstance err c then handler err st' else (Inl err, st')
      | (Inr x, st') \<Rightarrow> (Inr x, st'))"
  by (simp add: try_except_def)

lemmas action_simps = bind_apply return_apply raise_apply emit_apply check_apply result_of_apply
  try_except_apply

lemma log_each_apply: "log_each ls st = (Inr (), st\<lparr>trace := trace st @ map (Log INFO) ls\<rparr>)"
  by (induction ls arbitrary: st) (simp_all add: action_simps)

lemma delivery_instance: "delivery e msg = Some err \<Longrightarrow> isinstance err Exception"
  by (auto simp add: delivery_def split: if_splits option.splits)

lemma send_slack_notification_apply:
  "send_slack_notification e msg st =
     (case delivery e msg of None \<Rightarrow> Inr () | Some err \<Rightarrow> Inl err,
      st\<lparr>trace := trace st @ notification_events e msg\<rparr>)"
  by (simp add: send_slack_notification_def notification_events_def delivery_def post_def
      action_simps split: option.splits)

lemma rollback_deployment_apply:
  "rollback_deployment r p st =
     (Inr (), st\<lparr>trace := trace st @
        [Rollback r p, Log INFO (''Rolling back to previous deployment: '' @ r @ '':'' @ p)]\<rparr>)"
  by (simp add: rollback_deployment_def action_simps)


text \<open>The functions of the script: their result and the events they add.\<close>

lemma create_venv_apply:
  "create_venv e n st =
     (case venv_create e n of None \<Rightarrow> Inr () | Some err \<Rightarrow> Inl err,
      st\<lparr>trace := trace st @ [Log INFO (''Creating virtual environment: '' @ n), VenvCreate n]\<rparr>)"
  by (simp add: create_venv_def action_simps)

lemma install_dependencies_apply:
  "install_dependencies e py rf st =
     (if os_path_exists e rf then
        (Inr (), st\<lparr>trace := trace st @ [Log INFO (''Installing dependencies from '' @ rf),
                                          System (pip_command py rf)]\<rparr>)
      else (Inl (Error FileNotFoundError (''Requirements file '' @ rf @ '' not found.'')), st))"
  by (simp add: install_dependencies_def system_def action_simps)

lemma run_tests_apply:
  "run_tests e py td st =
     (if os_system e (unittest_command py td) \<noteq> 0
      then Inl (Error NameError (''name '' @ sq @ ''subprocess'' @ sq @ '' is not defined''))
      else Inr (),
      st\<lparr>trace := trace st @ [Log INFO ''Running unit tests'', System (unittest_command py td)]\<rparr>)"
  by (simp add: run_tests_def system_def action_simps)

lemma build_docker_image_apply:
  "build_docker_image e n d c st =
     (case docker_from_env e of
        Some err \<Rightarrow> (Inl err, st\<lparr>trace := trace st @ [Log INFO (''Building Docker image: '' @ n), DockerFromEnv]\<rparr>)
      | None \<Rightarrow>
         (case images_build e c d n of
            Inl err \<Rightarrow> (Inl err, st\<lparr>trace := trace st @ [Log INFO (''Building Docker image: '' @ n), DockerFromEnv, ImagesBuild c d n]
                         @ (if isinstance err BuildError then [Log ERROR (''Docker build failed: '' @ str err)] else [])\<rparr>)
          | Inr (img, logs) \<Rightarrow> (Inr img, st\<lparr>trace := trace st @ [Log INFO (''Building Docker image: '' @ n), DockerFromEnv, ImagesBuild c d n]
                         @ map (Log INFO) (stream_lines logs)\<rparr>)))"
  by (simp add: build_docker_image_def action_simps log_each_apply split: option.splits sum.splits prod.splits)

lemma tag_docker_image_apply:
  "tag_docker_image e img r t st =
     (case image_tag e img r t of
        None \<Rightarrow> (Inr (), st\<lparr>trace := trace st @ [Log INFO (''Tagging Docker image: '' @ r @ '':'' @ t), ImageTag img r t]\<rparr>)
      | Some err \<Rightarrow> (Inl err, st\<lparr>trace := trace st @ [Log INFO (''Tagging Docker image: '' @ r @ '':'' @ t), ImageTag img r t]
               @ (if isinstance err APIError then [Log ERROR (''Failed to tag Docker image: '' @ str err)] else [])\<rparr>))"
  by (simp add: tag_docker_image_def action_simps split: option.splits)

lemma push_docker_image_apply:
  "push_docker_image e r t u p st =
     (case docker_from_env e of
        Some err \<Rightarrow> (Inl err, st\<lparr>trace := trace st @ [Log INFO (''Pushing Docker image: '' @ r @ '':'' @ t), DockerFromEnv]\<rparr>)
      | None \<Rightarrow>
         (case client_login e u p of
            Some err \<Rightarrow> (Inl err, st\<lparr>trace := trace st @ [Log INFO (''Pushing Docker image: '' @ r @ '':'' @ t), DockerFromEnv, Login u p]
                  @ (if isinstance err APIError then [Log ERROR (''Failed to push Docker image: '' @ str err)] else [])\<rparr>)
          | None \<Rightarrow>
             (case snd (images_push e r t) of
                Some err \<Rightarrow> (Inl err, st\<lparr>trace := trace st @ [Log INFO (''Pushing Docker image: '' @ r @ '':'' @ t), DockerFromEnv, Login u p, ImagesPush r t]
                     @ map (Log INFO) (fst (images_push e r t))
                     @ (if isinstance err APIError then [Log ERROR (''Failed to push Docker image: '' @ str err)] else [])\<rparr>)
              | None \<Rightarrow> (Inr (), st\<lparr>trace := trace st @ [Log INFO (''Pushing Docker image: '' @ r @ '':'' @ t), DockerFromEnv, Login u p, ImagesPush r t]
                     @ map (Log INFO) (fst (images_push e r t))\<rparr>))))"
  by (simp add: push_docker_image_def action_simps log_each_apply split: option.splits)


text \<open>Writing to the file changes the file and the buffer, nothing else.\<close>

lemma flush_to_disk_frame:
  "\<exists>cf. snd (flush_to_disk e t st) = st\<lparr>config_file := cf\<rparr>"
  by (auto simp add: flush_to_disk_def split: option.splits)

lemma fp_write_frame:
  "\<exists>cf b. snd (fp_write e s st) = st\<lparr>config_file := cf, buffer := b\<rparr>"
proof (cases "length (pending st @ s) < io_buffer_size e")
  case True
  then have "snd (fp_write e s st) = st\<lparr>config_file := config_file st, buffer := Some (pending st @ s)\<rparr>"
    by (simp add: fp_write_def)
  then show ?thesis by blast
next
  case False
  define st1 where "st1 = st\<lparr>buffer := Some (drop (io_flushed e (pending st @ s)) (pending st @ s))\<rparr>"
  obtain cf where "snd (flush_to_disk e (take (io_flushed e (pending st @ s)) (pending st @ s)) st1)
      = st1\<lparr>config_file := cf\<rparr>"
    using flush_to_disk_frame by blast
  with False have "snd (fp_write e s st) = st\<lparr>config_file := cf, buffer := buffer st1\<rparr>"
    by (simp add: fp_write_def st1_def)
  then show ?thesis by blast
qed

lemma fp_writes_frame:
  "\<exists>cf b. snd (run_steps (map (fp_write e) ss) st) = st\<lparr>config_file := cf, buffer := b\<rparr>"
proof (induction ss arbitrary: st)
  case Nil
  have "snd (run_steps (map (fp_write e) []) st) = st\<lparr>config_file := config_file st, buffer := buffer st\<rparr>"
    by (simp add: return_apply)
  then show ?case by blast
next
  case (Cons s ss)
  obtain cf b where w: "snd (fp_write e s st) = st\<lparr>config_file := cf, buffer := b\<rparr>"
    using fp_write_frame by blast
  obtain r st1 where r: "fp_write e s st = (r, st1)"
    by (cases "fp_write e s st")
  with w have st1: "st1 = st\<lparr>config_file := cf, buffer := b\<rparr>" by simp
  show ?case
  proof (cases r)
    case (Inl err)
    with r st1 have "snd (run_steps (map (fp_write e) (s # ss)) st) = st\<lparr>config_file := cf, buffer := b\<rparr>"
      by (simp add: bind_apply)
    then show ?thesis by blast
  next
    case (Inr u)
    obtain cf' b' where "snd (run_steps (map (fp_write e) ss) st1) = st1\<lparr>config_file := cf', buffer := b'\<rparr>"
      using Cons.IH by blast
    with Inr r st1 have "snd (run_steps (map (fp_write e) (s # ss)) st) = st\<lparr>config_file := cf', buffer := b'\<rparr>"
      by (simp add: bind_apply)
    then show ?thesis by blast
  qed
qed

lemma close_file_frame:
  "\<exists>cf. snd (close_file e st) = st\<lparr>config_file := cf, buffer := None\<rparr>"
proof -
  obtain cf where "snd (flush_to_disk e (pending st) (st\<lparr>buffer := None\<rparr>)) = st\<lparr>buffer := None\<rparr>\<lparr>config_file := cf\<rparr>"
    using flush_to_disk_frame by blast
  then have "snd (close_file e st) = st\<lparr>config_file := cf, buffer := None\<rparr>"
    by (simp add: close_file_def)
  then show ?thesis by blast
qed

lemma write_config_file_frame:
  "\<exists>cf b. snd (write_config_file e st) =
     st\<lparr>trace := trace st @ [OpenW (CONFIG_FILE e)], config_file := cf, buffer := b\<rparr>"
proof (cases "open_w e (CONFIG_FILE e)")
  case (Some err)
  then have "snd (write_config_file e st) =
     st\<lparr>trace := trace st @ [OpenW (CONFIG_FILE e)], config_file := config_file st, buffer := buffer st\<rparr>"
    by (simp add: write_config_file_def open_for_writing_def action_simps)
  then show ?thesis by blast
next
  case None
  define st1 where "st1 = st\<lparr>trace := trace st @ [OpenW (CONFIG_FILE e)], config_file := Some [], buffer := Some []\<rparr>"
  obtain r st2 where w: "config_write_to e st1 = (r, st2)"
    by (cases "config_write_to e st1")
  obtain cf b where "snd (config_write_to e st1) = st1\<lparr>config_file := cf, buffer := b\<rparr>"
    unfolding config_write_to_def using fp_writes_frame by blast
  with w have st2: "st2 = st1\<lparr>config_file := cf, buffer := b\<rparr>" by simp
  obtain r' st3 where c: "close_file e st2 = (r', st3)"
    by (cases "close_file e st2")
  obtain cf' where "snd (close_file e st2) = st2\<lparr>config_file := cf', buffer := None\<rparr>"
    using close_file_frame by blast
  with c have st3: "st3 = st2\<lparr>config_file := cf', buffer := None\<rparr>" by simp
  have "snd (write_config_file e st) = st3"
    using None w c
    by (simp add: write_config_file_def open_for_writing_def action_simps st1_def
        split: sum.splits)
  then have "snd (write_config_file e st) =
     st\<lparr>trace := trace st @ [OpenW (CONFIG_FILE e)], config_file := cf', buffer := None\<rparr>"
    by (simp add: st3 st2 st1_def)
  then show ?thesis by blast
qed

lemma write_config_file_apply:
  "write_config_file e st =
     (fst (write_config_file e st),
      st\<lparr>trace := trace st @ [OpenW (CONFIG_FILE e)],
         config_file := config_file (snd (write_config_file e st)),
         buffer := buffer (snd (write_config_file e st))\<rparr>)"
proof -
  obtain cf b where f: "snd (write_config_file e st) =
     st\<lparr>trace := trace st @ [OpenW (CONFIG_FILE e)], config_file := cf, buffer := b\<rparr>"
    using write_config_file_frame by blast
  then have "config_file (snd (write_config_file e st)) = cf"
    and "buffer (snd (write_config_file e st)) = b"
    by simp_all
  with f show ?thesis by (simp add: prod_eq_iff)
qed


section \<open>Observations distribute over the trace\<close>

lemma notified_append: "notified (xs @ ys) = notified xs @ notified ys"
  by (induction xs rule: notified.induct) simp_all

lemma rollbacks_append: "rollbacks (xs @ ys) = rollbacks xs @ rollbacks ys"
  by (induction xs rule: rollbacks.induct) simp_all

lemma commands_append: "commands (xs @ ys) = commands xs @ commands ys"
  by (induction xs rule: commands.induct) simp_all

lemma notified_logs: "notified (map (Log l) ls) = []"
  by (induction ls) simp_all

lemma rollbacks_logs: "rollbacks (map (Log l) ls) = []"
  by (induction ls) simp_all

lemma commands_logs: "commands (map (Log l) ls) = []"
  by (induction ls) simp_all

lemma notified_notification_events: "notified (notification_events e msg) = [msg]"
  by (simp add: notification_events_def split: option.splits)

lemma rollbacks_notification_events: "rollbacks (notification_events e msg) = []"
  by (simp add: notification_events_def split: option.splits)

lemma commands_notification_events: "commands (notification_events e msg) = []"
  by (simp add: notification_events_def split: option.splits)

lemmas observer_simps = notified_append rollbacks_append commands_append notified_logs
  rollbacks_logs commands_logs notified_notification_events rollbacks_notification_events
  commands_notification_events

lemmas stage_simps = create_venv_apply install_dependencies_apply run_tests_apply
  build_docker_image_apply tag_docker_image_apply push_docker_image_apply
  send_slack_notification_apply rollback_deployment_apply


section \<open>The handler\<close>

lemma getitem_apply: "getitem e s k st = (config_getitem e (config st) s k, st)"
  by (simp add: getitem_def)

lemma setitem_frame:
  "setitem e s k v st = (fst (setitem e s k v st), st\<lparr>config := config (snd (setitem e s k v st))\<rparr>)"
  by (simp add: setitem_def split: sum.splits)

lemma main_rollback_unbound:
  "repository st = None \<Longrightarrow> main_rollback e p st = (Inl (unbound_local ''repository''), st)"
  by (simp add: main_rollback_def read_repository_def bind_apply)

lemma main_rollback_bound:
  "repository st = Some r \<Longrightarrow>
   main_rollback e p st =
     (case delivery e (RolledBack p) of None \<Rightarrow> Inr () | Some err \<Rightarrow> Inl err,
      st\<lparr>trace := trace st
        @ [Rollback r p, Log INFO (''Rolling back to previous deployment: '' @ r @ '':'' @ p)]
        @ notification_events e (RolledBack p)\<rparr>)"
  by (simp add: main_rollback_def read_repository_def bind_apply stage_simps)

lemma unbound_local_instance: "isinstance (unbound_local name) Exception"
  by (simp add: unbound_local_def)

lemma main_except_apply:
  "main_except e p err st =
     (case delivery e (DeploymentFailed (str err)) of
        Some d \<Rightarrow>
          (Inl d, st\<lparr>trace := trace st
             @ [Log ERROR (''Build and deployment process failed: '' @ str err)]
             @ notification_events e (DeploymentFailed (str err))\<rparr>)
      | None \<Rightarrow>
          (case repository st of
             None \<Rightarrow>
               (case delivery e (RollbackFailed (str (unbound_local ''repository''))) of
                  None \<Rightarrow> Inr 1 | Some d \<Rightarrow> Inl d,
                st\<lparr>trace := trace st
                  @ [Log ERROR (''Build and deployment process failed: '' @ str err)]
                  @ notification_events e (DeploymentFailed (str err))
                  @ [Log ERROR (''Rollback failed: '' @ str (unbound_local ''repository''))]
                  @ notification_events e (RollbackFailed (str (unbound_local ''repository'')))\<rparr>)
           | Some r \<Rightarrow>
               (case delivery e (RolledBack p) of
                  None \<Rightarrow>
                    (Inr 1, st\<lparr>trace := trace st
                       @ [Log ERROR (''Build and deployment process failed: '' @ str err)]
                       @ notification_events e (DeploymentFailed (str err))
                       @ [Rollback r p,
                          Log INFO (''Rolling back to previous deployment: '' @ r @ '':'' @ p)]
                       @ notification_events e (RolledBack p)\<rparr>)
                | Some d2 \<Rightarrow>
                    (case delivery e (RollbackFailed (str d2)) of
                       None \<Rightarrow> Inr 1 | Some d \<Rightarrow> Inl d,
                     st\<lparr>trace := trace st
                       @ [Log ERROR (''Build and deployment process failed: '' @ str err)]
                       @ notification_events e (DeploymentFailed (str err))
                       @ [Rollback r p,
                          Log INFO (''Rolling back to previous deployment: '' @ r @ '':'' @ p)]
                       @ notification_events e (RolledBack p)
                       @ [Log ERROR (''Rollback failed: '' @ str d2)]
                       @ notification_events e (RollbackFailed (str d2))\<rparr>))))"
  by (auto simp add: main_except_def action_simps send_slack_notification_apply
      main_rollback_unbound main_rollback_bound unbound_local_instance delivery_instance
      split: option.splits)


section \<open>The body of the try block\<close>

lemma bind_project:
  "bind m f st = (case fst (m st) of Inl err \<Rightarrow> (Inl err, snd (m st)) | Inr x \<Rightarrow> f x (snd (m st)))"
  by (simp add: bind_def split: prod.splits sum.splits)

lemma write_config_file_trace:
  "trace (snd (write_config_file e st)) = trace st @ [OpenW (CONFIG_FILE e)]"
  and write_config_file_repository:
  "repository (snd (write_config_file e st)) = repository st"
  and write_config_file_config:
  "config (snd (write_config_file e st)) = config st"
  using write_config_file_frame [of e st] by auto

lemma setitem_trace: "trace (snd (setitem e s k v st)) = trace st"
  and setitem_repository: "repository (snd (setitem e s k v st)) = repository st"
  and setitem_file: "config_file (snd (setitem e s k v st)) = config_file st"
  by (simp_all add: setitem_def split: sum.splits)

lemmas docker_simps = bind_project return_apply emit_apply stage_simps getitem_apply
  assign_repository_def write_config_file_trace write_config_file_repository
  setitem_trace setitem_repository observer_simps

lemma main_docker_rollbacks:
  "rollbacks (trace (snd (main_docker e st))) = rollbacks (trace st)"
  unfolding main_docker_def
  by (simp add: docker_simps split: option.splits sum.splits prod.splits)

lemma main_docker_commands:
  "commands (trace (snd (main_docker e st))) = commands (trace st)"
  unfolding main_docker_def
  by (simp add: docker_simps split: option.splits sum.splits prod.splits)

lemma main_docker_notified:
  "(case fst (main_docker e st) of
      Inr u \<Rightarrow> notified (trace (snd (main_docker e st))) = notified (trace st) @ [DeploymentSuccessful]
    | Inl err \<Rightarrow>
        notified (trace (snd (main_docker e st))) = notified (trace st)
        \<or> (notified (trace (snd (main_docker e st))) = notified (trace st) @ [DeploymentSuccessful]
            \<and> delivery e DeploymentSuccessful = Some err))"
  unfolding main_docker_def
  by (simp add: docker_simps split: option.splits sum.splits prod.splits)

lemmas try_simps = bind_project return_apply emit_apply stage_simps observer_simps

lemma main_try_rollbacks:
  "rollbacks (trace (snd (main_try e st))) = rollbacks (trace st)"
  unfolding main_try_def
  by (simp add: try_simps main_docker_rollbacks split: option.splits)

lemma main_try_notified:
  "(case fst (main_try e st) of
      Inr u \<Rightarrow> notified (trace (snd (main_try e st))) = notified (trace st) @ [DeploymentSuccessful]
    | Inl err \<Rightarrow>
        notified (trace (snd (main_try e st))) = notified (trace st)
        \<or> (notified (trace (snd (main_try e st))) = notified (trace st) @ [DeploymentSuccessful]
            \<and> delivery e DeploymentSuccessful = Some err))"
proof -
  define st1 where "st1 = st\<lparr>trace := trace st
      @ [Log INFO (''Creating virtual environment: '' @ VENV_NAME e), VenvCreate (VENV_NAME e),
         Log INFO (''Installing dependencies from '' @ REQUIREMENTS_FILE e),
         System (pip_command (get_venv_python e (VENV_NAME e)) (REQUIREMENTS_FILE e)),
         Log INFO ''Running unit tests'',
         System (unittest_command (get_venv_python e (VENV_NAME e)) (TEST_DIR e))]\<rparr>"
  show ?thesis
    unfolding main_try_def
    using main_docker_notified [of e st1]
    by (auto simp add: try_simps st1_def split: option.splits sum.splits)
qed

lemma main_try_no_manifest:
  "\<not> os_path_exists e (REQUIREMENTS_FILE e) \<Longrightarrow>
   commands (trace (snd (main_try e st))) = commands (trace st)
   \<and> (\<exists>err. fst (main_try e st) = Inl err)"
  unfolding main_try_def
  by (simp add: try_simps split: option.splits)

lemma main_try_early:
  assumes "(\<exists>err. venv_create e (VENV_NAME e) = Some err \<and> isinstance err Exception)
     \<or> (venv_create e (VENV_NAME e) = None
         \<and> (\<not> os_path_exists e (REQUIREMENTS_FILE e)
             \<or> os_system e (unittest_command (get_venv_python e (VENV_NAME e)) (TEST_DIR e)) \<noteq> 0))"
  shows "\<exists>err. fst (main_try e st) = Inl err \<and> isinstance err Exception
           \<and> repository (snd (main_try e st)) = repository st
           \<and> notified (trace (snd (main_try e st))) = notified (trace st)
           \<and> rollbacks (trace (snd (main_try e st))) = rollbacks (trace st)"
  using assms unfolding main_try_def
  by (auto simp add: try_simps split: option.splits)


section \<open>The ways a run can go\<close>

lemma main_apply:
  "main e file =
     (case initial_config e file of
        Inl err \<Rightarrow> (Uncaught err, (initial_state file)\<lparr>trace := [Log INFO (''Loading configuration from '' @ CONFIG_FILE e)]\<rparr>)
      | Inr c \<Rightarrow>
         (case config_getitem e c ''Docker'' ''Tag'' of
            Inl err \<Rightarrow> (Uncaught err, (initial_state file)\<lparr>trace := [Log INFO (''Loading configuration from '' @ CONFIG_FILE e)], config := c\<rparr>)
          | Inr p \<Rightarrow>
             (case fst (main_try e ((initial_state file)\<lparr>trace := [Log INFO (''Loading configuration from '' @ CONFIG_FILE e)], config := c\<rparr>)) of
                Inr u \<Rightarrow> (Exit 0, snd (main_try e ((initial_state file)\<lparr>trace := [Log INFO (''Loading configuration from '' @ CONFIG_FILE e)], config := c\<rparr>)))
              | Inl err \<Rightarrow>
                  if isinstance err Exception
                  then finish (main_except e p err (snd (main_try e ((initial_state file)\<lparr>trace := [Log INFO (''Loading configuration from '' @ CONFIG_FILE e)], config := c\<rparr>))))
                  else (Uncaught err, snd (main_try e ((initial_state file)\<lparr>trace := [Log INFO (''Loading configuration from '' @ CONFIG_FILE e)], config := c\<rparr>))))))"
  by (simp add: main_def main_body_def finish_def load_config_def assign_config_def
      initial_config_def initial_state_def bind_project return_apply emit_apply getitem_apply
      try_except_apply
      split: option.splits sum.splits prod.splits)

lemma main_shape:
  obtains (uncaught) err st0 where
      "initial_tag e file = Inl err"
      "main e file = (Uncaught err, st0)"
      "trace st0 = [Log INFO (''Loading configuration from '' @ CONFIG_FILE e)]"
      "repository st0 = None" "config_file st0 = file"
  | (completed) p st0 where
      "initial_tag e file = Inr p"
      "trace st0 = [Log INFO (''Loading configuration from '' @ CONFIG_FILE e)]"
      "repository st0 = None" "config_file st0 = file"
      "fst (main_try e st0) = Inr ()"
      "main e file = (Exit 0, snd (main_try e st0))"
  | (escaped) p st0 err where
      "initial_tag e file = Inr p"
      "trace st0 = [Log INFO (''Loading configuration from '' @ CONFIG_FILE e)]"
      "repository st0 = None" "config_file st0 = file"
      "fst (main_try e st0) = Inl err" "\<not> isinstance err Exception"
      "main e file = (Uncaught err, snd (main_try e st0))"
  | (handled) p st0 err where
      "initial_tag e file = Inr p"
      "trace st0 = [Log INFO (''Loading configuration from '' @ CONFIG_FILE e)]"
      "repository st0 = None" "config_file st0 = file"
      "fst (main_try e st0) = Inl err" "isinstance err Exception"
      "main e file = finish (main_except e p err (snd (main_try e st0)))"
proof (cases "initial_config e file")
  case (Inl err)
  define st0 where "st0 = (initial_state file)\<lparr>trace := [Log INFO (''Loading configuration from '' @ CONFIG_FILE e)]\<rparr>"
  have "initial_tag e file = Inl err"
    using Inl by (simp add: initial_tag_def)
  moreover have "main e file = (Uncaught err, st0)"
    using Inl by (simp add: main_apply st0_def)
  moreover have "trace st0 = [Log INFO (''Loading configuration from '' @ CONFIG_FILE e)]"
    and "repository st0 = None" and "config_file st0 = file"
    by (simp_all add: st0_def initial_state_def)
  ultimately show ?thesis by (rule uncaught)
next
  case (Inr c)
  note c = Inr
  define st1 where "st1 = (initial_state file)\<lparr>trace := [Log INFO (''Loading configuration from '' @ CONFIG_FILE e)], config := c\<rparr>"
  have tr: "trace st1 = [Log INFO (''Loading configuration from '' @ CONFIG_FILE e)]"
    and rp: "repository st1 = None" and fl: "config_file st1 = file"
    by (simp_all add: st1_def initial_state_def)
  show ?thesis
  proof (cases "config_getitem e c ''Docker'' ''Tag''")
    case (Inl err)
    with c have "initial_tag e file = Inl err"
      by (simp add: initial_tag_def)
    moreover from c Inl have "main e file = (Uncaught err, st1)"
      by (simp add: main_apply st1_def)
    ultimately show ?thesis using tr rp fl by (rule uncaught)
  next
    case (Inr p)
    with c have it: "initial_tag e file = Inr p"
      by (simp add: initial_tag_def)
    show ?thesis
    proof (cases "fst (main_try e st1)")
      case (Inr u)
      then have r: "fst (main_try e st1) = Inr ()" by simp
      with c \<open>config_getitem e c ''Docker'' ''Tag'' = Inr p\<close>
      have "main e file = (Exit 0, snd (main_try e st1))"
        by (simp add: main_apply st1_def)
      with it tr rp fl r show ?thesis by (rule completed)
    next
      case (Inl err)
      show ?thesis
      proof (cases "isinstance err Exception")
        case True
        with Inl c \<open>config_getitem e c ''Docker'' ''Tag'' = Inr p\<close>
        have "main e file = finish (main_except e p err (snd (main_try e st1)))"
          by (simp add: main_apply st1_def)
        with it tr rp fl Inl True show ?thesis by (rule handled)
      next
        case False
        with Inl c \<open>config_getitem e c ''Docker'' ''Tag'' = Inr p\<close>
        have "main e file = (Uncaught err, snd (main_try e st1))"
          by (simp add: main_apply st1_def)
        with it tr rp fl Inl False show ?thesis by (rule escaped)
      qed
    qed
  qed
qed


text \<open>What the handler adds to a run.\<close>

lemma main_except_exit_status:
  "exit_status (fst (finish (main_except e p err st))) = 1"
  by (simp add: main_except_apply finish_def split: option.splits)

lemma main_except_commands:
  "commands (trace (snd (finish (main_except e p err st)))) = commands (trace st)"
  by (simp add: main_except_apply finish_def observer_simps split: option.splits)

lemma main_except_repository:
  "repository (snd (finish (main_except e p err st))) = repository st"
  by (simp add: main_except_apply finish_def split: option.splits)

lemma main_except_file:
  "config_file (snd (finish (main_except e p err st))) = config_file st"
  by (simp add: main_except_apply finish_def split: option.splits)

lemma main_except_rollbacks:
  "rollbacks (trace (snd (finish (main_except e p err st)))) = rollbacks (trace st)
   \<or> (\<exists>r. repository st = Some r
         \<and> rollbacks (trace (snd (finish (main_except e p err st)))) = rollbacks (trace st) @ [(r, p)]
         \<and> RolledBack p \<in> set (notified (trace (snd (finish (main_except e p err st)))))
         \<and> (delivery e (RolledBack p) = None \<longrightarrow>
               notified (trace (snd (finish (main_except e p err st))))
                 = notified (trace st) @ [DeploymentFailed (str err), RolledBack p]))"
  by (simp add: main_except_apply finish_def observer_simps split: option.splits)

lemma main_except_notified:
  "\<exists>ms. notified (trace (snd (finish (main_except e p err st))))
           = notified (trace st) @ DeploymentFailed (str err) # ms"
  by (simp add: main_except_apply finish_def observer_simps split: option.splits)


text \<open>The equations that evaluate a concrete run.\<close>

lemmas run_simps = main_apply main_try_def main_docker_def main_except_apply finish_def
  bind_project return_apply raise_apply emit_apply check_apply result_of_apply try_except_apply
  stage_simps getitem_apply assign_repository_def setitem_def config_setitem_def
  config_getitem_def section_dict_def str_lower_def observer_simps initial_config_def
  initial_state_def get_venv_python_def pip_command_def unittest_command_def
  config_set_def config_write_def config_write_calls_def write_section_def
  write_config_file_def open_for_writing_def config_write_to_def fp_write_def close_file_def
  flush_to_disk_def on_disk_def pending_def
  stream_lines_def strip_def is_space_def notification_events_def delivery_def truthy_def
  unbound_local_def sq_def nl_def file_v1_def text_v1_def text_v2_def cfg_v1_def cfg_v2_def


section \<open>Runs without a manifest\<close>

lemma main_commands_no_manifest:
  assumes "\<not> os_path_exists e (REQUIREMENTS_FILE e)"
  shows "commands (trace (snd (main e file))) = []"
proof (cases rule: main_shape [of e "file"])
  case (uncaught err st0)
  then show ?thesis by simp
next
  case (completed p st0)
  then show ?thesis using main_try_no_manifest [OF assms, of st0] by simp
next
  case (escaped p st0 err)
  then show ?thesis using main_try_no_manifest [OF assms, of st0] by simp
next
  case (handled p st0 err)
  then show ?thesis using main_try_no_manifest [OF assms, of st0]
    by (simp add: main_except_commands)
qed

lemma main_exit_status_no_manifest:
  assumes "\<not> os_path_exists e (REQUIREMENTS_FILE e)"
  shows "exit_status (fst (main e file)) = 1"
proof (cases rule: main_shape [of e "file"])
  case (uncaught err st0)
  then show ?thesis by simp
next
  case (completed p st0)
  then show ?thesis using main_try_no_manifest [OF assms, of st0] by simp
next
  case (escaped p st0 err)
  then show ?thesis by simp
next
  case (handled p st0 err)
  then show ?thesis by (simp add: main_except_exit_status)
qed


section \<open>The notifications of the try block\<close>

lemma main_try_notified_escaped:
  assumes "fst (main_try e st) = Inl err" and "\<not> isinstance err Exception"
  shows "notified (trace (snd (main_try e st))) = notified (trace st)"
  using main_try_notified [of e st] assms delivery_instance [of e DeploymentSuccessful err]
  by auto

lemma main_try_notified_completed:
  assumes "fst (main_try e st) = Inr ()"
  shows "notified (trace (snd (main_try e st))) = notified (trace st) @ [DeploymentSuccessful]"
  using main_try_notified [of e st] assms by simp

lemma main_try_notified_cases:
  "notified (trace (snd (main_try e st))) = notified (trace st)
   \<or> notified (trace (snd (main_try e st))) = notified (trace st) @ [DeploymentSuccessful]"
  using main_try_notified [of e st] by (auto split: sum.splits)


section \<open>The file while it is written\<close>

lemma fp_writes_buffered:
  "buffer st = Some b \<Longrightarrow> length (b @ concat ss) < io_buffer_size e \<Longrightarrow>
   run_steps (map (fp_write e) ss) st = (Inr (), st\<lparr>buffer := Some (b @ concat ss)\<rparr>)"
proof (induction ss arbitrary: st b)
  case Nil
  then show ?case by (simp add: return_apply)
next
  case (Cons s ss)
  have w: "fp_write e s st = (Inr (), st\<lparr>buffer := Some (b @ s)\<rparr>)"
    using Cons.prems by (simp add: fp_write_def pending_def)
  have "run_steps (map (fp_write e) ss) (st\<lparr>buffer := Some (b @ s)\<rparr>)
          = (Inr (), st\<lparr>buffer := Some (b @ s)\<rparr>\<lparr>buffer := Some ((b @ s) @ concat ss)\<rparr>)"
    using Cons.prems by (intro Cons.IH) simp_all
  with w show ?case by (simp add: bind_apply)
qed

lemma run_steps_append:
  "run_steps (xs @ ys) st =
     (case run_steps xs st of (Inl err, st') \<Rightarrow> (Inl err, st') | (Inr u, st') \<Rightarrow> run_steps ys st')"
  by (induction xs arbitrary: st) (simp_all add: bind_apply return_apply split: prod.splits sum.splits)

lemma length_concat_take: "length (concat (take k xs)) \<le> length (concat xs)"
proof -
  have "concat xs = concat (take k xs) @ concat (drop k xs)"
    by (metis append_take_drop_id concat_append)
  then show ?thesis by simp
qed


section \<open>Deliveries that fail softly\<close>

lemma only_request_exceptions_delivery:
  "only_request_exceptions (requests_post e) \<Longrightarrow> delivery e msg = None"
  by (auto simp add: only_request_exceptions_def delivery_def split: option.splits)

lemma send_slack_notification_result:
  "fst (send_slack_notification e msg st) = (case delivery e msg of None \<Rightarrow> Inr () | Some err \<Rightarrow> Inl err)"
  by (simp add: send_slack_notification_apply)

lemma main_except_unbound:
  assumes "repository st = None" and "only_request_exceptions (requests_post e)"
  shows "main_except e p err st =
     (Inr 1, st\<lparr>trace := trace st
        @ [Log ERROR (''Build and deployment process failed: '' @ str err)]
        @ notification_events e (DeploymentFailed (str err))
        @ [Log ERROR (''Rollback failed: '' @ str (unbound_local ''repository''))]
        @ notification_events e (RollbackFailed (str (unbound_local ''repository'')))\<rparr>)"
  using assms by (simp add: main_except_apply only_request_exceptions_delivery)


section \<open>Notification settings do not steer the run\<close>














section \<open>The claims\<close>


subsection \<open>C1\<close>

text \<open>
  Claim C1, as amended.  The claim reads: when the dependency manifest does not exist,
  \<^verbatim>\<open>install_dependencies\<close> produces a soft-skip, not an error, and the pipeline goes on to the
  test stage.  The function does the opposite, as its docstring announces: it raises
  \<^verbatim>\<open>FileNotFoundError\<close> and leaves the state as it was.  So in every run whose manifest is
  missing no command is handed to \<^verbatim>\<open>os.system\<close>, neither the installer nor the test runner,
  and the process ends with status 1.
\<close>

theorem install_dependencies_missing_manifest:
  assumes "\<not> os_path_exists e (REQUIREMENTS_FILE e)"
  shows "install_dependencies e venv_python (REQUIREMENTS_FILE e) st =
           (Inl (Error FileNotFoundError
                   (''Requirements file '' @ REQUIREMENTS_FILE e @ '' not found.'')), st)
         \<and> commands (trace (snd (main e file))) = []
         \<and> exit_status (fst (main e file)) = 1"
  using assms main_commands_no_manifest [OF assms, of "file"]
    main_exit_status_no_manifest [OF assms, of "file"]
  by (simp add: install_dependencies_apply)

theorem install_dependencies_missing_manifest_witness:
  "\<not> os_path_exists env_no_manifest (REQUIREMENTS_FILE env_no_manifest)
   \<and> install_dependencies env_no_manifest ''venv/bin/python'' ''requirements.txt'' (initial_state file_v1) =
       (Inl (Error FileNotFoundError ''Requirements file requirements.txt not found.''),
        initial_state file_v1)
   \<and> commands (trace (snd (main env_no_manifest file_v1))) = []
   \<and> exit_status (fst (main env_no_manifest file_v1)) = 1"
  using install_dependencies_missing_manifest
    [of env_no_manifest "''venv/bin/python''" "initial_state file_v1" "file_v1"]
  by (simp add: env_no_manifest_def env_ok_def)

text \<open>
  The claim as stated fails on the run \<open>env_no_manifest\<close>: the call returns the error, the
  test command is never issued, the failure is notified and the process exits with 1.
\<close>

theorem missing_manifest_soft_skip_counterexample:
  "fst (install_dependencies env_no_manifest (get_venv_python env_no_manifest (VENV_NAME env_no_manifest))
          (REQUIREMENTS_FILE env_no_manifest) (initial_state file_v1)) =
     Inl (Error FileNotFoundError ''Requirements file requirements.txt not found.'')
   \<and> System (unittest_command (get_venv_python env_no_manifest (VENV_NAME env_no_manifest))
               (TEST_DIR env_no_manifest))
       \<notin> set (trace (snd (main env_no_manifest file_v1)))
   \<and> notified (trace (snd (main env_no_manifest file_v1))) =
       [DeploymentFailed ''Requirements file requirements.txt not found.'',
        RollbackFailed (str (unbound_local ''repository''))]
   \<and> fst (main env_no_manifest file_v1) = Exit 1"
  by (simp add: env_no_manifest_def env_ok_def run_simps)


subsection \<open>C2\<close>

text \<open>
  Claim C2 reads: the option \<^verbatim>\<open>Tag\<close> of the configuration file is rewritten if and only if
  every stage succeeds, and then to \<^verbatim>\<open>v\<close> followed by the value of \<^verbatim>\<open>Version\<close>.  On the run
  \<open>env_pip_fails\<close> the install stage fails, the installer returning the wait status 256,
  and yet the file, which held \<^verbatim>\<open>tag = v1.0\<close>, is rewritten with \<^verbatim>\<open>tag = v2.0\<close> and the
  process ends with status 0: \<^verbatim>\<open>install_dependencies\<close> drops the status of the installer.
\<close>

theorem tag_rewritten_after_install_failure:
  "os_system env_pip_fails
        (pip_command (get_venv_python env_pip_fails (VENV_NAME env_pip_fails))
           (REQUIREMENTS_FILE env_pip_fails)) = 256
   \<and> file_v1 = Some (''[Docker]'' @ nl @ ''imagename = app'' @ nl @ ''repository = acme/app'' @ nl
                      @ ''tag = v1.0'' @ nl @ ''version = 2.0'' @ nl @ nl)
   \<and> config_file (snd (main env_pip_fails file_v1)) =
       Some (''[Docker]'' @ nl @ ''imagename = app'' @ nl @ ''repository = acme/app'' @ nl
             @ ''tag = v2.0'' @ nl @ ''version = 2.0'' @ nl @ nl)
   \<and> fst (main env_pip_fails file_v1) = Exit 0"
  by (simp add: env_pip_fails_def env_ok_def run_simps)


subsection \<open>C3\<close>

text \<open>
  Claim C3, as amended.  The claim reads: the persistence step is an atomic replace, so
  that after a crash at any point of the write the file holds the complete old or the
  complete new configuration.  The script opens the file for writing where it lies,
  which empties it, and the new text reaches the disk when the file is closed.  So, for
  a configuration whose text stays below the buffer size of the file object, and with
  the open and the final write succeeding: a process killed before the open leaves the
  file as it was; killed after the open and before the close, whatever the number of
  writes made, it leaves the file empty; and the whole block leaves the complete new text.
\<close>

theorem persist_empties_then_fills:
  assumes "open_w e (CONFIG_FILE e) = None"
    and "length (config_write (config st)) < io_buffer_size e"
    and "os_write e (config_write (config st)) = None"
  shows "config_file (snd (write_config_file_killed e 0 st)) = config_file st
         \<and> (\<forall>k. k \<le> length (config_write_calls (config st)) \<longrightarrow>
               config_file (snd (write_config_file_killed e (Suc k) st)) = Some [])
         \<and> write_config_file_killed e (length (config_write_calls (config st)) + 2) st
             = write_config_file e st
         \<and> fst (write_config_file e st) = Inr ()
         \<and> config_file (snd (write_config_file e st)) = Some (config_write (config st))"
proof -
  define st1 where "st1 = st\<lparr>trace := trace st @ [OpenW (CONFIG_FILE e)],
                              config_file := Some [], buffer := Some []\<rparr>"
  define calls where "calls = config_write_calls (config st)"
  have opened: "open_for_writing e (CONFIG_FILE e) st = (Inr (), st1)"
    using assms(1) by (simp add: open_for_writing_def action_simps st1_def)
  have b1: "buffer st1 = Some []" and c1: "config st1 = config st"
    by (simp_all add: st1_def)
  have small: "length (concat calls) < io_buffer_size e"
    using assms(2) by (simp add: config_write_def calls_def)
  have written: "run_steps (map (fp_write e) (take k calls)) st1
                   = (Inr (), st1\<lparr>buffer := Some (concat (take k calls))\<rparr>)" for k
  proof -
    have "length ([] @ concat (take k calls)) < io_buffer_size e"
      using small length_concat_take [of k calls] by simp
    from fp_writes_buffered [OF b1 this] show ?thesis by simp
  qed
  have zero: "config_file (snd (write_config_file_killed e 0 st)) = config_file st"
    by (simp add: write_config_file_killed_def return_apply)
  have mid: "config_file (snd (write_config_file_killed e (Suc k) st)) = Some []"
    if "k \<le> length calls" for k
  proof -
    have "take (Suc k) (block_steps e (config st))
            = open_for_writing e (CONFIG_FILE e) # map (fp_write e) (take k calls)"
      using that by (simp add: block_steps_def calls_def take_map)
    then have "write_config_file_killed e (Suc k) st
                 = (Inr (), st1\<lparr>buffer := Some (concat (take k calls))\<rparr>)"
      using opened written [of k] by (simp add: write_config_file_killed_def bind_apply)
    then show ?thesis by (simp add: st1_def)
  qed
  have all_written: "config_write_to e st1 = (Inr (), st1\<lparr>buffer := Some (concat calls)\<rparr>)"
    using written [of "length calls"] by (simp add: config_write_to_def c1 calls_def)
  have closed: "close_file e (st1\<lparr>buffer := Some (concat calls)\<rparr>)
                  = (Inr (), st1\<lparr>buffer := None, config_file := Some (concat calls)\<rparr>)"
    using assms(3)
    by (simp add: close_file_def flush_to_disk_def pending_def on_disk_def st1_def
        config_write_def calls_def)
  have whole: "write_config_file e st
                 = (Inr (), st1\<lparr>buffer := None, config_file := Some (concat calls)\<rparr>)"
    using opened all_written closed by (simp add: write_config_file_def bind_apply)
  have "take (length calls + 2) (block_steps e (config st)) = block_steps e (config st)"
    by (simp add: block_steps_def calls_def)
  then have "write_config_file_killed e (length calls + 2) st
          = run_steps (open_for_writing e (CONFIG_FILE e)
                         # map (fp_write e) calls @ [close_file e]) st"
    by (simp add: write_config_file_killed_def block_steps_def calls_def)
  also have "\<dots> = (Inr (), st1\<lparr>buffer := None, config_file := Some (concat calls)\<rparr>)"
    using opened written [of "length calls"] closed
    by (simp add: bind_apply run_steps_append return_apply)
  finally have full: "write_config_file_killed e (length calls + 2) st = write_config_file e st"
    using whole by simp
  show ?thesis
    using zero mid full whole
    by (simp add: calls_def [symmetric] config_write_def)
qed

theorem persist_empties_then_fills_witness:
  "open_w env_ok (CONFIG_FILE env_ok) = None
   \<and> length (config_write cfg_v2) < io_buffer_size env_ok
   \<and> os_write env_ok (config_write cfg_v2) = None
   \<and> config_file ((initial_state file_v1)\<lparr>config := cfg_v2\<rparr>) =
       Some (''[Docker]'' @ nl @ ''imagename = app'' @ nl @ ''repository = acme/app'' @ nl
             @ ''tag = v1.0'' @ nl @ ''version = 2.0'' @ nl @ nl)
   \<and> config_file (snd (write_config_file_killed env_ok 0
        ((initial_state file_v1)\<lparr>config := cfg_v2\<rparr>))) =
       Some (''[Docker]'' @ nl @ ''imagename = app'' @ nl @ ''repository = acme/app'' @ nl
             @ ''tag = v1.0'' @ nl @ ''version = 2.0'' @ nl @ nl)
   \<and> config_file (snd (write_config_file_killed env_ok 4
        ((initial_state file_v1)\<lparr>config := cfg_v2\<rparr>))) = Some []
   \<and> config_file (snd (write_config_file env_ok ((initial_state file_v1)\<lparr>config := cfg_v2\<rparr>))) =
       Some (''[Docker]'' @ nl @ ''imagename = app'' @ nl @ ''repository = acme/app'' @ nl
             @ ''tag = v2.0'' @ nl @ ''version = 2.0'' @ nl @ nl)"
proof -
  have a: "open_w env_ok (CONFIG_FILE env_ok) = None"
    and b: "length (config_write (config ((initial_state file_v1)\<lparr>config := cfg_v2\<rparr>)))
              < io_buffer_size env_ok"
    and c: "os_write env_ok (config_write (config ((initial_state file_v1)\<lparr>config := cfg_v2\<rparr>))) = None"
    and d: "config_write cfg_v2 =
       ''[Docker]'' @ nl @ ''imagename = app'' @ nl @ ''repository = acme/app'' @ nl
       @ ''tag = v2.0'' @ nl @ ''version = 2.0'' @ nl @ nl"
    and f: "length (config_write_calls cfg_v2) = 6"
    and g: "config_file ((initial_state file_v1)\<lparr>config := cfg_v2\<rparr>) =
       Some (''[Docker]'' @ nl @ ''imagename = app'' @ nl @ ''repository = acme/app'' @ nl
             @ ''tag = v1.0'' @ nl @ ''version = 2.0'' @ nl @ nl)"
    by (simp_all add: env_ok_def cfg_v2_def config_write_def config_write_calls_def
        write_section_def nl_def initial_state_def file_v1_def text_v1_def)
  show ?thesis
    using persist_empties_then_fills [OF a b c] a b c d f g
    by (simp add: numeral_eq_Suc)
qed

text \<open>
  The claim as stated fails for a process killed right after the file has been opened:
  the file held the old configuration, and afterwards it is empty, neither the old nor
  the new one.
\<close>

theorem persist_atomic_counterexample:
  "config_file ((initial_state file_v1)\<lparr>config := cfg_v2\<rparr>) =
       Some (''[Docker]'' @ nl @ ''imagename = app'' @ nl @ ''repository = acme/app'' @ nl
             @ ''tag = v1.0'' @ nl @ ''version = 2.0'' @ nl @ nl)
   \<and> config_write cfg_v2 =
       ''[Docker]'' @ nl @ ''imagename = app'' @ nl @ ''repository = acme/app'' @ nl
       @ ''tag = v2.0'' @ nl @ ''version = 2.0'' @ nl @ nl
   \<and> write_config_file_killed env_ok 1 ((initial_state file_v1)\<lparr>config := cfg_v2\<rparr>) =
       open_for_writing env_ok (CONFIG_FILE env_ok) ((initial_state file_v1)\<lparr>config := cfg_v2\<rparr>)
   \<and> config_file (snd (write_config_file_killed env_ok 1
         ((initial_state file_v1)\<lparr>config := cfg_v2\<rparr>))) = Some []
   \<and> config_file (snd (write_config_file_killed env_ok 1
         ((initial_state file_v1)\<lparr>config := cfg_v2\<rparr>)))
       \<noteq> config_file ((initial_state file_v1)\<lparr>config := cfg_v2\<rparr>)
   \<and> config_file (snd (write_config_file_killed env_ok 1
         ((initial_state file_v1)\<lparr>config := cfg_v2\<rparr>))) \<noteq> Some (config_write cfg_v2)"
  by (simp add: write_config_file_killed_def block_steps_def open_for_writing_def action_simps
      env_ok_def initial_state_def file_v1_def text_v1_def cfg_v2_def config_write_calls_def
      write_section_def config_write_def nl_def)


subsection \<open>C4\<close>

text \<open>
  Claim C4 reads: when the manifest exists and the install tool exits with a nonzero
  status, \<^verbatim>\<open>install_dependencies\<close> fails with a hard error that aborts the pipeline before the
  test stage.  The function drops the status \<^verbatim>\<open>os.system\<close> returns (\<^verbatim>\<open>run_tests\<close>, next to
  it, checks it).  On the run \<open>env_pip_fails\<close>, where the installer returns the wait
  status 256, the call returns normally, the test command is issued next, and the run
  ends as a successful deployment with status 0.
\<close>

theorem install_exit_status_ignored:
  "os_path_exists env_pip_fails (REQUIREMENTS_FILE env_pip_fails)
   \<and> os_system env_pip_fails
        (pip_command (get_venv_python env_pip_fails (VENV_NAME env_pip_fails))
           (REQUIREMENTS_FILE env_pip_fails)) = 256
   \<and> fst (install_dependencies env_pip_fails (get_venv_python env_pip_fails (VENV_NAME env_pip_fails))
          (REQUIREMENTS_FILE env_pip_fails) (initial_state file_v1)) = Inr ()
   \<and> commands (trace (snd (main env_pip_fails file_v1))) =
       [''venv/bin/python -m pip install -r requirements.txt'',
        ''venv/bin/python -m unittest discover tests'']
   \<and> notified (trace (snd (main env_pip_fails file_v1))) = [DeploymentSuccessful]
   \<and> fst (main env_pip_fails file_v1) = Exit 0"
  by (simp add: env_pip_fails_def env_ok_def run_simps)


subsection \<open>C5\<close>

text \<open>
  Claim C5 reads: whenever a stage fails, the orchestrator sends the failure
  notification, invokes rollback once, sends one notification of the rollback's outcome
  and ends with a nonzero status.  On the run \<open>env_tests_fail\<close>, where the test command
  fails, the handler reads the local \<^verbatim>\<open>repository\<close> before it has been assigned:
  \<^verbatim>\<open>rollback_deployment\<close> is never entered, and a rollback failure is notified for a
  rollback that did not run.  The two notifications and the status 1 are as claimed.
\<close>

theorem early_failure_never_enters_rollback:
  "commands (trace (snd (main env_tests_fail file_v1))) =
       [''venv/bin/python -m pip install -r requirements.txt'',
        ''venv/bin/python -m unittest discover tests'']
   \<and> notified (trace (snd (main env_tests_fail file_v1))) =
       [DeploymentFailed (''name '' @ sq @ ''subprocess'' @ sq @ '' is not defined''),
        RollbackFailed (str (unbound_local ''repository''))]
   \<and> rollbacks (trace (snd (main env_tests_fail file_v1))) = []
   \<and> fst (main env_tests_fail file_v1) = Exit 1"
  by (simp add: env_tests_fail_def env_ok_def run_simps)


subsection \<open>C6\<close>

text \<open>
  Claim C6.  Whenever \<^verbatim>\<open>rollback_deployment\<close> is entered, its second argument is the value
  of \<^verbatim>\<open>Tag\<close> in the configuration as it was on disk when the run started, also when the
  object in memory has been given the new tag since (a failure of the persistence step).
  The value is read before any stage: when it cannot be read the run ends at once with
  that exception, and nothing but the loading of the file has happened.
\<close>

theorem rollback_receives_snapshot:
  "(\<forall>r p. (r, p) \<in> set (rollbacks (trace (snd (main e file)))) \<longrightarrow> initial_tag e file = Inr p)
   \<and> (\<forall>err. initial_tag e file = Inl err \<longrightarrow>
         fst (main e file) = Uncaught err
         \<and> trace (snd (main e file)) = [Log INFO (''Loading configuration from '' @ CONFIG_FILE e)])"
proof (cases rule: main_shape [of e "file"])
  case (uncaught err st0)
  then show ?thesis by simp
next
  case (completed p st0)
  then show ?thesis using main_try_rollbacks [of e st0] by simp
next
  case (escaped p st0 err)
  then show ?thesis using main_try_rollbacks [of e st0] by simp
next
  case (handled p st0 err)
  then show ?thesis
    using main_try_rollbacks [of e st0] main_except_rollbacks [of e p err "snd (main_try e st0)"]
    by auto
qed

theorem rollback_receives_snapshot_witness:
  "rollbacks (trace (snd (main env_open_fails file_v1))) = [(''acme/app'', ''v1.0'')]
   \<and> raw_option (config (snd (main env_open_fails file_v1))) ''Docker'' ''tag'' = Some ''v2.0''
   \<and> initial_tag env_open_fails file_v1 = Inr ''v1.0''
   \<and> initial_tag env_ok None = Inl (Error KeyError (py_repr ''Docker''))
   \<and> fst (main env_ok None) = Uncaught (Error KeyError (py_repr ''Docker''))"
proof -
  have a: "rollbacks (trace (snd (main env_open_fails file_v1))) = [(''acme/app'', ''v1.0'')]"
    and b: "raw_option (config (snd (main env_open_fails file_v1))) ''Docker'' ''tag'' = Some ''v2.0''"
    by (simp_all add: env_open_fails_def env_ok_def run_simps raw_option_def)
  have c: "initial_tag env_ok None = Inl (Error KeyError (py_repr ''Docker''))"
    by (simp add: initial_tag_def initial_config_def empty_config_def config_getitem_def
        section_dict_def)
  show ?thesis
    using rollback_receives_snapshot [of env_open_fails file_v1]
      rollback_receives_snapshot [of env_ok None] a b c
    by simp
qed


subsection \<open>C7\<close>





subsection \<open>C8\<close>

text \<open>
  Claim C8, as amended.  The claim reads: the exit status tells apart a clean success, a
  failure with a successful rollback and a failure with a failed rollback.  The script
  ends every failed run with \<^verbatim>\<open>sys.exit(1)\<close>.  So the status is 0 exactly when the one
  notification of the run is the success message, and 1 otherwise; it is 1 when the
  rollback was notified as done and 1 when it was notified as failed.
\<close>

theorem exit_status_zero_or_one:
  "exit_status (fst (main e file)) =
     (if notified (trace (snd (main e file))) = [DeploymentSuccessful] then 0 else 1)
   \<and> (\<forall>p. RolledBack p \<in> set (notified (trace (snd (main e file)))) \<longrightarrow>
         exit_status (fst (main e file)) = 1)
   \<and> (\<forall>m. RollbackFailed m \<in> set (notified (trace (snd (main e file)))) \<longrightarrow>
         exit_status (fst (main e file)) = 1)"
proof (cases rule: main_shape [of e "file"])
  case (uncaught err st0)
  then show ?thesis by simp
next
  case (completed p st0)
  then show ?thesis using main_try_notified_completed [of e st0] by simp
next
  case (escaped p st0 err)
  then show ?thesis using main_try_notified_escaped [of e st0 err] by simp
next
  case (handled p st0 err)
  obtain ms where "notified (trace (snd (finish (main_except e p err (snd (main_try e st0))))))
      = notified (trace (snd (main_try e st0))) @ DeploymentFailed (str err) # ms"
    using main_except_notified by blast
  with handled show ?thesis
    using main_try_notified_cases [of e st0]
    by (auto simp add: main_except_exit_status)
qed

theorem exit_status_zero_or_one_witness:
  "RolledBack ''v1.0'' \<in> set (notified (trace (snd (main env_build_fails file_v1))))
   \<and> exit_status (fst (main env_build_fails file_v1)) = 1
   \<and> RollbackFailed (str (unbound_local ''repository''))
        \<in> set (notified (trace (snd (main env_tests_fail file_v1))))
   \<and> exit_status (fst (main env_tests_fail file_v1)) = 1
   \<and> notified (trace (snd (main env_ok file_v1))) = [DeploymentSuccessful]
   \<and> exit_status (fst (main env_ok file_v1)) = 0"
proof -
  have a: "notified (trace (snd (main env_build_fails file_v1))) =
             [DeploymentFailed ''no space left'', RolledBack ''v1.0'']"
    by (simp add: env_build_fails_def env_ok_def run_simps)
  have b: "notified (trace (snd (main env_tests_fail file_v1))) =
             [DeploymentFailed (''name '' @ sq @ ''subprocess'' @ sq @ '' is not defined''),
              RollbackFailed (str (unbound_local ''repository''))]"
    by (simp add: env_tests_fail_def env_ok_def run_simps)
  have c: "notified (trace (snd (main env_ok file_v1))) = [DeploymentSuccessful]"
    by (simp add: env_ok_def run_simps)
  show ?thesis
    using exit_status_zero_or_one [of env_build_fails file_v1]
      exit_status_zero_or_one [of env_tests_fail file_v1]
      exit_status_zero_or_one [of env_ok file_v1] a b c
    by simp
qed

text \<open>
  The claim as stated fails on two runs: when the build fails the rollback succeeds,
  when the tests fail the rollback fails, and both processes exit with the same status.
\<close>

theorem exit_status_rollback_counterexample:
  "notified (trace (snd (main env_build_fails file_v1))) =
     [DeploymentFailed ''no space left'', RolledBack ''v1.0'']
   \<and> rollbacks (trace (snd (main env_build_fails file_v1))) = [(''acme/app'', ''v1.0'')]
   \<and> notified (trace (snd (main env_tests_fail file_v1))) =
       [DeploymentFailed (''name '' @ sq @ ''subprocess'' @ sq @ '' is not defined''),
        RollbackFailed (str (unbound_local ''repository''))]
   \<and> exit_status (fst (main env_build_fails file_v1)) = exit_status (fst (main env_tests_fail file_v1))"
  by (simp add: env_build_fails_def env_tests_fail_def env_ok_def run_simps)


subsection \<open>C9\<close>

text \<open>
  Claim C9, as amended.  The claim reads: in every run in which venv creation, the
  dependency install or the test stage fails, the rollback statement raises a
  \<^verbatim>\<open>NameError\<close>, which is caught, a rollback failure is notified and the process exits with
  status 1.  This holds for the runs that have read their \<^verbatim>\<open>Tag\<close>, in which the failure is
  an exception below \<^verbatim>\<open>Exception\<close> (one that venv creation raises, the
  \<^verbatim>\<open>FileNotFoundError\<close> of a missing manifest, or the exception of failing tests), and in
  which the deliveries raise nothing but \<^verbatim>\<open>RequestException\<close>: then \<^verbatim>\<open>repository\<close> is
  unbound in the handler, the rollback statement raises \<^verbatim>\<open>UnboundLocalError\<close>, a
  \<^verbatim>\<open>NameError\<close>, the inner handler logs it, the two notifications are the failure and the
  rollback failure, \<^verbatim>\<open>rollback_deployment\<close> is not entered, and the status is 1.
\<close>

theorem early_failure_unbound_repository:
  assumes "initial_tag e file = Inr previous_tag"
    and "(\<exists>err. venv_create e (VENV_NAME e) = Some err \<and> isinstance err Exception)
         \<or> (venv_create e (VENV_NAME e) = None
             \<and> (\<not> os_path_exists e (REQUIREMENTS_FILE e)
                 \<or> os_system e (unittest_command (get_venv_python e (VENV_NAME e)) (TEST_DIR e)) \<noteq> 0))"
    and "only_request_exceptions (requests_post e)"
  shows "repository (snd (main e file)) = None
         \<and> main_rollback e previous_tag (snd (main e file)) =
             (Inl (unbound_local ''repository''), snd (main e file))
         \<and> isinstance (unbound_local ''repository'') NameError
         \<and> (\<exists>err. notified (trace (snd (main e file))) =
                     [DeploymentFailed (str err), RollbackFailed (str (unbound_local ''repository''))])
         \<and> Log ERROR (''Rollback failed: '' @ str (unbound_local ''repository''))
              \<in> set (trace (snd (main e file)))
         \<and> rollbacks (trace (snd (main e file))) = []
         \<and> fst (main e file) = Exit 1"
proof (cases rule: main_shape [of e "file"])
  case (uncaught err st0)
  with assms(1) show ?thesis by simp
next
  case (completed p st0)
  with main_try_early [OF assms(2), of st0] show ?thesis by simp
next
  case (escaped p st0 err)
  with main_try_early [OF assms(2), of st0] show ?thesis by auto
next
  case (handled p st0 err)
  define st2 where "st2 = snd (main_try e st0)"
  from main_try_early [OF assms(2), of st0] handled
  have rp: "repository st2 = None" and nt: "notified (trace st2) = []"
    and rb: "rollbacks (trace st2) = []"
    by (auto simp add: st2_def)
  have m: "main e file = finish (main_except e p err st2)"
    using handled by (simp add: st2_def)
  have nm: "isinstance (unbound_local ''repository'') NameError"
    by (simp add: unbound_local_def)
  have rp': "repository (snd (main e file)) = None"
    by (simp add: m main_except_unbound [OF rp assms(3)] finish_def rp)
  show ?thesis
    using nm rp' main_rollback_unbound [OF rp'] nt rb
    by (auto simp add: m main_except_unbound [OF rp assms(3)] finish_def observer_simps)
qed

theorem early_failure_unbound_repository_witness:
  "initial_tag env_tests_fail file_v1 = Inr ''v1.0''
   \<and> venv_create env_tests_fail (VENV_NAME env_tests_fail) = None
   \<and> os_system env_tests_fail
        (unittest_command (get_venv_python env_tests_fail (VENV_NAME env_tests_fail))
           (TEST_DIR env_tests_fail)) \<noteq> 0
   \<and> only_request_exceptions (requests_post env_tests_fail)
   \<and> repository (snd (main env_tests_fail file_v1)) = None
   \<and> rollbacks (trace (snd (main env_tests_fail file_v1))) = []
   \<and> fst (main env_tests_fail file_v1) = Exit 1"
proof -
  have a: "initial_tag env_tests_fail file_v1 = Inr ''v1.0''"
    and b: "os_system env_tests_fail
        (unittest_command (get_venv_python env_tests_fail (VENV_NAME env_tests_fail))
           (TEST_DIR env_tests_fail)) \<noteq> 0"
    and c: "venv_create env_tests_fail (VENV_NAME env_tests_fail) = None"
    and d: "only_request_exceptions (requests_post env_tests_fail)"
    by (simp_all add: env_tests_fail_def env_ok_def initial_tag_def initial_config_def file_v1_def
        config_getitem_def section_dict_def str_lower_def cfg_v1_def get_venv_python_def
        unittest_command_def only_request_exceptions_def)
  show ?thesis
    using early_failure_unbound_repository [of env_tests_fail file_v1 "''v1.0''"] a b c d
    by simp
qed

text \<open>
  The claim as stated fails on the run \<open>env_venv_exits\<close>: venv creation ends in
  \<open>SystemExit\<close>, which the handler of \<^verbatim>\<open>main\<close> does not catch, so nothing is notified, no
  rollback statement runs, and the process ends with that exception.  It fails as well
  on the run \<open>env_pip_fails\<close>, if an installer that returns a nonzero status counts as a
  failed install: nothing is raised, and the run ends as a successful deployment.
\<close>

theorem early_failure_counterexample:
  "venv_create env_venv_exits (VENV_NAME env_venv_exits) = Some SystemExit
   \<and> notified (trace (snd (main env_venv_exits file_v1))) = []
   \<and> rollbacks (trace (snd (main env_venv_exits file_v1))) = []
   \<and> fst (main env_venv_exits file_v1) = Uncaught SystemExit
   \<and> os_system env_pip_fails
        (pip_command (get_venv_python env_pip_fails (VENV_NAME env_pip_fails))
           (REQUIREMENTS_FILE env_pip_fails)) = 256
   \<and> notified (trace (snd (main env_pip_fails file_v1))) = [DeploymentSuccessful]
   \<and> fst (main env_pip_fails file_v1) = Exit 0"
  by (simp add: env_venv_exits_def env_pip_fails_def env_ok_def run_simps)


subsection \<open>C10\<close>

text \<open>
  Claim C10, as amended.  The claim reads: \<^verbatim>\<open>rollback_deployment\<close> returns normally and
  changes no state, so that with \<^verbatim>\<open>repository\<close> bound the rollback-failure branch is
  unreachable and the rolled-back message is the one sent.  The first half holds: the
  function returns on all arguments and adds only its entry and its log line to the
  trace.  The rolled-back notification, though, stands in the same \<^verbatim>\<open>try\<close> as the call.
  So with \<^verbatim>\<open>repository\<close> bound the rolled-back message is always the next one
  attempted, and in every run in which \<^verbatim>\<open>rollback_deployment\<close> is entered it is
  notified; the rollback-failure branch is then reached exactly when the delivery of
  that message raises, and not at all when it raises nothing.
\<close>

theorem rollback_deployment_returns:
  "rollback_deployment repo previous_tag st =
     (Inr (), st\<lparr>trace := trace st @
        [Rollback repo previous_tag,
         Log INFO (''Rolling back to previous deployment: '' @ repo @ '':'' @ previous_tag)]\<rparr>)
   \<and> (repository st = Some repo \<longrightarrow>
         rollbacks (trace (snd (main_rollback e previous_tag st)))
           = rollbacks (trace st) @ [(repo, previous_tag)]
         \<and> notified (trace (snd (main_rollback e previous_tag st)))
           = notified (trace st) @ [RolledBack previous_tag]
         \<and> fst (main_rollback e previous_tag st)
           = fst (send_slack_notification e (RolledBack previous_tag) st))
   \<and> (\<forall>r p. (r, p) \<in> set (rollbacks (trace (snd (main e file)))) \<longrightarrow>
         RolledBack p \<in> set (notified (trace (snd (main e file))))
         \<and> ((\<exists>m. RollbackFailed m \<in> set (notified (trace (snd (main e file)))))
              = (fst (send_slack_notification e (RolledBack p) st) \<noteq> Inr ())))"
proof -
  have one: "rollback_deployment repo previous_tag st =
     (Inr (), st\<lparr>trace := trace st @
        [Rollback repo previous_tag,
         Log INFO (''Rolling back to previous deployment: '' @ repo @ '':'' @ previous_tag)]\<rparr>)"
    by (simp add: rollback_deployment_apply)
  have two: "rollbacks (trace (snd (main_rollback e previous_tag st)))
           = rollbacks (trace st) @ [(repo, previous_tag)]
         \<and> notified (trace (snd (main_rollback e previous_tag st)))
           = notified (trace st) @ [RolledBack previous_tag]
         \<and> fst (main_rollback e previous_tag st)
           = fst (send_slack_notification e (RolledBack previous_tag) st)"
    if "repository st = Some repo"
    using that
    by (simp add: main_rollback_bound send_slack_notification_result observer_simps)
  have three: "RolledBack p \<in> set (notified (trace (snd (main e file))))
         \<and> ((\<exists>m. RollbackFailed m \<in> set (notified (trace (snd (main e file)))))
              = (fst (send_slack_notification e (RolledBack p) st) \<noteq> Inr ()))"
    if mem: "(r, p) \<in> set (rollbacks (trace (snd (main e file))))" for r p
  proof (cases rule: main_shape [of e "file"])
    case (uncaught err st0)
    with mem show ?thesis by simp
  next
    case (completed p' st0)
    with mem main_try_rollbacks [of e st0] show ?thesis by simp
  next
    case (escaped p' st0 err)
    with mem main_try_rollbacks [of e st0] show ?thesis by simp
  next
    case (handled p' st0 err)
    define st2 where "st2 = snd (main_try e st0)"
    have rb: "rollbacks (trace st2) = []"
      using main_try_rollbacks [of e st0] handled by (simp add: st2_def)
    have nt: "notified (trace st2) = [] \<or> notified (trace st2) = [DeploymentSuccessful]"
      using main_try_notified_cases [of e st0] handled by (simp add: st2_def)
    have m: "main e file = finish (main_except e p' err st2)"
      using handled by (simp add: st2_def)
    show ?thesis
      using mem nt rb
      by (auto simp add: m main_except_apply finish_def observer_simps
          send_slack_notification_result split: option.splits)
  qed
  show ?thesis
    using one two three by blast
qed

theorem rollback_deployment_returns_witness:
  "repository (snd (main env_push_fails file_v1)) = Some ''acme/app''
   \<and> rollbacks (trace (snd (main env_push_fails file_v1))) = [(''acme/app'', ''v1.0'')]
   \<and> notified (trace (snd (main env_push_fails file_v1))) =
       [DeploymentFailed ''unauthorized'', RolledBack ''v1.0'']
   \<and> fst (send_slack_notification env_push_fails (RolledBack ''v1.0'')
            (snd (main env_push_fails file_v1))) = Inr ()
   \<and> fst (main_rollback env_push_fails ''v1.0'' (snd (main env_push_fails file_v1))) = Inr ()"
proof -
  have a: "rollbacks (trace (snd (main env_push_fails file_v1))) = [(''acme/app'', ''v1.0'')]"
    and b: "notified (trace (snd (main env_push_fails file_v1))) =
       [DeploymentFailed ''unauthorized'', RolledBack ''v1.0'']"
    and c: "repository (snd (main env_push_fails file_v1)) = Some ''acme/app''"
    by (simp_all add: env_push_fails_def env_ok_def run_simps)
  have d: "fst (send_slack_notification env_push_fails (RolledBack ''v1.0'') st) = Inr ()" for st
    by (simp add: send_slack_notification_result delivery_def truthy_def env_push_fails_def
        env_ok_def)
  show ?thesis
    using rollback_deployment_returns
      [of "''acme/app''" "''v1.0''" "snd (main env_push_fails file_v1)" env_push_fails file_v1]
      a b c d
    by simp
qed

text \<open>
  The claim as stated fails on the run \<open>env_rolled_back_undelivered\<close>: the build fails
  with \<^verbatim>\<open>repository\<close> bound, \<^verbatim>\<open>rollback_deployment\<close> is entered and returns, the delivery of
  the rolled-back message raises a \<^verbatim>\<open>ValueError\<close>, and the rollback-failure branch runs.
\<close>

theorem rollback_failure_branch_counterexample:
  "fst (rollback_deployment ''acme/app'' ''v1.0'' (initial_state file_v1)) = Inr ()
   \<and> rollbacks (trace (snd (main env_rolled_back_undelivered file_v1))) = [(''acme/app'', ''v1.0'')]
   \<and> notified (trace (snd (main env_rolled_back_undelivered file_v1))) =
       [DeploymentFailed ''no space left'', RolledBack ''v1.0'', RollbackFailed ''bad header'']
   \<and> fst (main env_rolled_back_undelivered file_v1) = Exit 1"
  by (simp add: env_rolled_back_undelivered_def env_build_fails_def env_ok_def run_simps
      rollback_deployment_apply)

end
